theory Spec2Isabelle
  imports Main
begin

section \<open>Errors\<close>

text \<open>
  The exceptions the modelled code can raise: \<^verbatim>\<open>ValueError\<close> from the constructor
  \<^verbatim>\<open>datetime.date(year, month, day)\<close> and \<^verbatim>\<open>OverflowError\<close> from date
  arithmetic that leaves the supported range. A computation that may raise returns
  \<open>error + 'a\<close>, \<open>Inl\<close> being the exception.
\<close>

datatype error = ValueError | OverflowError

definition bind_result :: "error + 'a \<Rightarrow> ('a \<Rightarrow> error + 'b) \<Rightarrow> error + 'b" where
  "bind_result r f = (case r of Inl e \<Rightarrow> Inl e | Inr v \<Rightarrow> f v)"

section \<open>Calendar dates: \<^verbatim>\<open>datetime.date\<close>\<close>

text \<open>
  A \<^verbatim>\<open>datetime.date\<close> is an immutable value that is compared by its year, month and
  day. It is represented here by its proleptic Gregorian ordinal
  (\<^verbatim>\<open>date.toordinal()\<close>, 0001-01-01 being day 1): the constructor computes the ordinal
  as \<^verbatim>\<open>_ymd2ord\<close> of the standard library does, after the field checks of
  \<^verbatim>\<open>_check_date_fields\<close>.
\<close>

type_synonym date = int

definition MINYEAR :: int where "MINYEAR = 1"
definition MAXYEAR :: int where "MAXYEAR = 9999"

text \<open>\<^verbatim>\<open>_MAXORDINAL = date(9999, 12, 31).toordinal()\<close>\<close>

definition MAXORDINAL :: int where "MAXORDINAL = 3652059"

definition DAYS_IN_MONTH :: "int list" where
  "DAYS_IN_MONTH = [-1, 31, 28, 31, 30, 31, 30, 31, 31, 30, 31, 30, 31]"

definition DAYS_BEFORE_MONTH :: "int list" where
  "DAYS_BEFORE_MONTH = [-1, 0, 31, 59, 90, 120, 151, 181, 212, 243, 273, 304, 334]"

definition is_leap :: "int \<Rightarrow> bool" where
  "is_leap year = (year mod 4 = 0 \<and> (year mod 100 \<noteq> 0 \<or> year mod 400 = 0))"

definition days_before_year :: "int \<Rightarrow> int" where
  "days_before_year year =
     (let y = year - 1 in y * 365 + y div 4 - y div 100 + y div 400)"

definition days_in_month :: "int \<Rightarrow> int \<Rightarrow> int" where
  "days_in_month year month =
     (if month = 2 \<and> is_leap year then 29 else DAYS_IN_MONTH ! nat month)"

definition days_before_month :: "int \<Rightarrow> int \<Rightarrow> int" where
  "days_before_month year month =
     DAYS_BEFORE_MONTH ! nat month + (if month > 2 \<and> is_leap year then 1 else 0)"

definition ymd2ord :: "int \<Rightarrow> int \<Rightarrow> int \<Rightarrow> int" where
  "ymd2ord year month day =
     days_before_year year + days_before_month year month + day"

text \<open>
  \<^verbatim>\<open>date(year, month, day)\<close>: the three range checks, then the value. Every year
  outside 1..9999 gives \<^verbatim>\<open>ValueError\<close> here; CPython raises
  \<^verbatim>\<open>OverflowError\<close> instead when the argument does not fit a C integer. The
  properties below are about the years in which a result exists, 1..9999.
\<close>

definition date :: "int \<Rightarrow> int \<Rightarrow> int \<Rightarrow> error + date" where
  "date year month day =
     (if \<not> (MINYEAR \<le> year \<and> year \<le> MAXYEAR) then Inl ValueError
      else if \<not> (1 \<le> month \<and> month \<le> 12) then Inl ValueError
      else if \<not> (1 \<le> day \<and> day \<le> days_in_month year month) then Inl ValueError
      else Inr (ymd2ord year month day))"

text \<open>\<^verbatim>\<open>date.weekday()\<close>: Monday is 0, Sunday is 6.\<close>

definition weekday :: "date \<Rightarrow> int" where
  "weekday d = (d + 6) mod 7"

text \<open>\<^verbatim>\<open>date + timedelta(days=n)\<close>\<close>

definition add_timedelta :: "date \<Rightarrow> int \<Rightarrow> error + date" where
  "add_timedelta d n =
     (let o' = d + n in if 0 < o' \<and> o' \<le> MAXORDINAL then Inr o' else Inl OverflowError)"

section \<open>\<^verbatim>\<open>dateutil\<close>: relative deltas and Easter\<close>

text \<open>
  \<^verbatim>\<open>dt + relativedelta(days=n, weekday=W(k))\<close>, as \<^verbatim>\<open>relativedelta.__radd__\<close>
  computes it for the two keyword arguments this program uses: the day offset is added
  first; then, when a weekday is given, the date moves to the \<open>|k|\<close>-th such weekday
  on or after it (\<open>k > 0\<close>) or on or before it (\<open>k < 0\<close>). A weekday is the pair of its
  index and \<open>k\<close>; a bare \<^verbatim>\<open>MO\<close> has \<open>k = 1\<close>. The program builds
  \<^verbatim>\<open>MO\<close>, \<^verbatim>\<open>MO(-1)\<close> and \<^verbatim>\<open>FR(-1)\<close> only, so \<open>k = 0\<close> (which
  \<^verbatim>\<open>dateutil\<close> does not let a weekday have) never reaches this function.
\<close>

definition radd :: "date \<Rightarrow> int \<Rightarrow> (int \<times> int) option \<Rightarrow> error + date" where
  "radd dt days wd =
     bind_result (add_timedelta dt days) (\<lambda>ret.
       case wd of
         None \<Rightarrow> Inr ret
       | Some (wday, k) \<Rightarrow>
           (let jumpdays = (abs k - 1) * 7;
                jumpdays = (if k > 0 then jumpdays + (7 - weekday ret + wday) mod 7
                            else - (jumpdays + (weekday ret - wday) mod 7))
            in add_timedelta ret jumpdays))"

definition MO :: "int \<Rightarrow> (int \<times> int) option" where "MO n = Some (0, n)"
definition FR :: "int \<Rightarrow> (int \<times> int) option" where "FR n = Some (4, n)"

text \<open>
  \<^verbatim>\<open>dateutil.easter.easter(year)\<close> with its default method
  \<^verbatim>\<open>EASTER_WESTERN\<close>; \<^verbatim>\<open>//\<close> and \<^verbatim>\<open>%\<close> of Python are \<open>div\<close> and
  \<open>mod\<close> on \<open>int\<close> (both round towards minus infinity).
\<close>

definition easter :: "int \<Rightarrow> error + date" where
  "easter year =
     (let y = year;
          g = y mod 19;
          e = 0;
          c = y div 100;
          h = (c - c div 4 - (8 * c + 13) div 25 + 19 * g + 15) mod 30;
          i = h - (h div 28) * (1 - (h div 28) * (29 div (h + 1)) * ((21 - g) div 11));
          j = (y + y div 4 + i + 2 - c + c div 4) mod 7;
          p = i - j + e;
          d = 1 + (p + 27 + (p + 6) div 40) mod 31;
          m = 3 + (p + 26) div 30
      in date y m d)"

section \<open>Constants of \<^verbatim>\<open>holidays.constants\<close>\<close>

text \<open>
  Modelled from the spec: the module \<^verbatim>\<open>holidays.constants\<close> is not among the
  sources. Months are numbered from 1, weekdays as \<^verbatim>\<open>date.weekday()\<close> numbers
  them (Mon = 0 ... Sun = 6), and the weekend is Saturday and Sunday.
\<close>

definition JAN :: int where "JAN = 1"
definition MAR :: int where "MAR = 3"
definition APR :: int where "APR = 4"
definition MAY :: int where "MAY = 5"
definition JUN :: int where "JUN = 6"
definition JUL :: int where "JUL = 7"
definition AUG :: int where "AUG = 8"
definition SEP :: int where "SEP = 9"
definition NOV :: int where "NOV = 11"
definition DEC :: int where "DEC = 12"

definition MON :: int where "MON = 0"
definition TUE :: int where "TUE = 1"
definition WED :: int where "WED = 2"
definition THU :: int where "THU = 3"
definition FRI :: int where "FRI = 4"
definition SAT :: int where "SAT = 5"
definition SUN :: int where "SUN = 6"

definition WEEKEND :: "int list" where "WEEKEND = [SAT, SUN]"

section \<open>The holiday dictionary\<close>

text \<open>
  \<^verbatim>\<open>self\<close> is a dictionary from dates to names that the program only ever writes
  (\<^verbatim>\<open>self[key] = value\<close>) and never reads. It is represented by the sequence of the
  assignments performed on it, oldest first, so that a statement about what is inserted
  does not depend on how the dictionary resolves two assignments to one date.
\<close>

type_synonym holidays = "(date \<times> string) list"

definition setitem :: "date \<Rightarrow> string \<Rightarrow> holidays \<Rightarrow> holidays" where
  "setitem key val self = self @ [(key, val)]"

text \<open>
  Modelled from the spec: \<^verbatim>\<open>HolidayBase.__setitem__\<close> and the lookup of the base
  class are not among the sources. The spec has the later assignment to a date overwrite
  the earlier one (last write wins), so the name found at a date is that of the last
  assignment to it.
\<close>

definition get :: "holidays \<Rightarrow> date \<Rightarrow> string option" where
  "get self = map_of (rev self)"

section \<open>\<^verbatim>\<open>class UnitedKingdom(HolidayBase)\<close>\<close>

definition special_holidays :: "(int \<times> (int \<times> int \<times> string) list) list" where
  "special_holidays =
     [(1977, [(JUN, 7, ''Silver Jubilee of Elizabeth II'')]),
      (1981, [(JUL, 29, ''Wedding of Charles and Diana'')]),
      (1999, [(DEC, 31, ''Millennium Celebrations'')]),
      (2002, [(JUN, 3, ''Golden Jubilee of Elizabeth II'')]),
      (2011, [(APR, 29, ''Wedding of William and Catherine'')]),
      (2012, [(JUN, 5, ''Diamond Jubilee of Elizabeth II'')]),
      (2022, [(JUN, 3, ''Platinum Jubilee of Elizabeth II''),
              (SEP, 19, ''State Funeral of Queen Elizabeth II'')])]"

definition subdivisions :: "string list" where
  "subdivisions = [''UK'', ''England'', ''Northern Ireland'', ''Scotland'', ''Wales'']"

text \<open>
  Modelled from the spec: \<^verbatim>\<open>HolidayBase._populate\<close>, which
  \<^verbatim>\<open>super()._populate(year)\<close> calls, is not among the sources. The spec has it merge
  in every special occasion whose year matches, unconditionally, with no subdivision
  filtering and no observed shift: one assignment per entry of
  \<^verbatim>\<open>special_holidays.get(year, ())\<close>, in the order of the table.
\<close>

fun add_special :: "int \<Rightarrow> (int \<times> int \<times> string) list \<Rightarrow> holidays \<Rightarrow> error + holidays" where
  "add_special year [] self = Inr self"
| "add_special year ((month, day, name) # rest) self =
     bind_result (date year month day) (\<lambda>d. add_special year rest (setitem d name self))"

definition HolidayBase_populate :: "int \<Rightarrow> holidays \<Rightarrow> error + holidays" where
  "HolidayBase_populate year self =
     add_special year (case map_of special_holidays year of None \<Rightarrow> [] | Some l \<Rightarrow> l) self"

text \<open>
  \<^verbatim>\<open>self.observed and date(...).weekday() == W\<close>: the date is only built when
  \<^verbatim>\<open>self.observed\<close> is true.
\<close>

definition observed_and :: "bool \<Rightarrow> error + bool \<Rightarrow> error + bool" where
  "observed_and observed c = (if observed then c else Inr False)"

definition weekday_is :: "error + date \<Rightarrow> int \<Rightarrow> error + bool" where
  "weekday_is d w = bind_result d (\<lambda>d. Inr (weekday d = w))"

definition weekday_in :: "error + date \<Rightarrow> int list \<Rightarrow> error + bool" where
  "weekday_in d ws = bind_result d (\<lambda>d. Inr (weekday d \<in> set ws))"

text \<open>\<^verbatim>\<open>self[key] = value\<close> for a key whose computation may raise.\<close>

definition assign :: "error + date \<Rightarrow> string \<Rightarrow> holidays \<Rightarrow> error + holidays" where
  "assign key val self = bind_result key (\<lambda>d. Inr (setitem d val self))"

subsection \<open>\<^verbatim>\<open>_populate\<close>, block by block\<close>

definition new_years_day :: "int \<Rightarrow> bool \<Rightarrow> holidays \<Rightarrow> error + holidays" where
  "new_years_day year observed self =
     (if year \<ge> 1974 then
        (let name = ''New Year's Day'' in
         bind_result (assign (date year JAN 1) name self) (\<lambda>self.
         bind_result (observed_and observed (weekday_is (date year JAN 1) SUN)) (\<lambda>c.
         if c then
           assign (bind_result (date year JAN 1) (\<lambda>d. radd d 1 None))
             (name @ '' (Observed)'') self
         else
           bind_result (observed_and observed (weekday_is (date year JAN 1) SAT)) (\<lambda>c.
           if c then
             assign (bind_result (date year JAN 1) (\<lambda>d. radd d 2 None))
               (name @ '' (Observed)'') self
           else Inr self))))
      else Inr self)"

definition new_year_holiday :: "int \<Rightarrow> string \<Rightarrow> bool \<Rightarrow> holidays \<Rightarrow> error + holidays" where
  "new_year_holiday year subdiv observed self =
     (if subdiv \<in> set [''UK'', ''Scotland''] then
        (let name = ''New Year Holiday'';
             name = (if subdiv = ''UK'' then name @ '' [Scotland]'' else name) in
         bind_result (assign (date year JAN 2) name self) (\<lambda>self.
         bind_result (observed_and observed (weekday_in (date year JAN 2) WEEKEND)) (\<lambda>c.
         if c then
           assign (bind_result (date year JAN 2) (\<lambda>d. radd d 2 None))
             (name @ '' (Observed)'') self
         else
           bind_result (observed_and observed (weekday_is (date year JAN 2) MON)) (\<lambda>c.
           if c then
             assign (bind_result (date year JAN 2) (\<lambda>d. radd d 1 None))
               (name @ '' (Observed)'') self
           else Inr self))))
      else Inr self)"

definition st_patricks_day :: "int \<Rightarrow> string \<Rightarrow> bool \<Rightarrow> holidays \<Rightarrow> error + holidays" where
  "st_patricks_day year subdiv observed self =
     (if subdiv \<in> set [''UK'', ''Northern Ireland''] then
        (let name = ''St. Patrick's Day'';
             name = (if subdiv = ''UK'' then name @ '' [Northern Ireland]'' else name) in
         bind_result (assign (date year MAR 17) name self) (\<lambda>self.
         bind_result (observed_and observed (weekday_in (date year MAR 17) WEEKEND)) (\<lambda>c.
         if c then
           assign (bind_result (date year MAR 17) (\<lambda>d. radd d 0 (MO 1)))
             (name @ '' (Observed)'') self
         else Inr self)))
      else Inr self)"

definition battle_of_the_boyne :: "int \<Rightarrow> string \<Rightarrow> holidays \<Rightarrow> error + holidays" where
  "battle_of_the_boyne year subdiv self =
     (if subdiv \<in> set [''UK'', ''Northern Ireland''] then
        (let name = ''Battle of the Boyne'';
             name = (if subdiv = ''UK'' then name @ '' [Northern Ireland]'' else name) in
         assign (date year JUL 12) name self)
      else Inr self)"

definition summer_bank_holiday :: "int \<Rightarrow> string \<Rightarrow> holidays \<Rightarrow> error + holidays" where
  "summer_bank_holiday year subdiv self =
     (if subdiv \<in> set [''UK'', ''Scotland''] then
        (let name = ''Summer Bank Holiday'';
             name = (if subdiv = ''UK'' then name @ '' [Scotland]'' else name) in
         assign (bind_result (date year AUG 1) (\<lambda>d. radd d 0 (MO 1))) name self)
      else Inr self)"

definition st_andrews_day :: "int \<Rightarrow> string \<Rightarrow> holidays \<Rightarrow> error + holidays" where
  "st_andrews_day year subdiv self =
     (if subdiv \<in> set [''UK'', ''Scotland''] then
        (let name = ''St. Andrew's Day'';
             name = (if subdiv = ''UK'' then name @ '' [Scotland]'' else name) in
         assign (date year NOV 30) name self)
      else Inr self)"

definition christmas_day :: "int \<Rightarrow> bool \<Rightarrow> holidays \<Rightarrow> error + holidays" where
  "christmas_day year observed self =
     (let name = ''Christmas Day'' in
      bind_result (assign (date year DEC 25) name self) (\<lambda>self.
      bind_result (observed_and observed (weekday_is (date year DEC 25) SAT)) (\<lambda>c.
      if c then assign (date year DEC 27) (name @ '' (Observed)'') self
      else
        bind_result (observed_and observed (weekday_is (date year DEC 25) SUN)) (\<lambda>c.
        if c then assign (date year DEC 27) (name @ '' (Observed)'') self
        else Inr self))))"

subsection \<open>\<^verbatim>\<open>_country_specific\<close>, block by block\<close>

definition good_friday :: "int \<Rightarrow> holidays \<Rightarrow> error + holidays" where
  "good_friday year self =
     assign (bind_result (easter year) (\<lambda>d. radd d 0 (FR (- 1)))) ''Good Friday'' self"

definition easter_monday :: "int \<Rightarrow> string \<Rightarrow> holidays \<Rightarrow> error + holidays" where
  "easter_monday year subdiv self =
     (if subdiv \<noteq> ''Scotland'' then
        (let name = ''Easter Monday'';
             name = (if subdiv = ''UK''
                     then name @ '' [England/Wales/Northern Ireland]'' else name) in
         assign (bind_result (easter year) (\<lambda>d. radd d 0 (MO 1))) name self)
      else Inr self)"

text \<open>
  The seven \<^verbatim>\<open>if dt.weekday() == W\<close> statements of the May Day block follow one
  another (they are not \<^verbatim>\<open>elif\<close>), so each is a step of its own.
\<close>

definition may_day_case :: "date \<Rightarrow> int \<Rightarrow> int \<Rightarrow> string \<Rightarrow> holidays \<Rightarrow> error + holidays" where
  "may_day_case dt w n name self =
     (if weekday dt = w then assign (radd dt n None) name self else Inr self)"

definition may_day :: "int \<Rightarrow> holidays \<Rightarrow> error + holidays" where
  "may_day year self =
     (if year \<ge> 1978 then
        (let name = ''May Day'' in
         if year = 2020 then assign (date year MAY 8) name self
         else
           bind_result (if year = 1995 then date year MAY 8 else date year MAY 1) (\<lambda>dt.
           bind_result (if weekday dt = MON then assign (Inr dt) name self else Inr self) (\<lambda>self.
           bind_result (may_day_case dt TUE 6 name self) (\<lambda>self.
           bind_result (may_day_case dt WED 5 name self) (\<lambda>self.
           bind_result (may_day_case dt THU 4 name self) (\<lambda>self.
           bind_result (may_day_case dt FRI 3 name self) (\<lambda>self.
           bind_result (may_day_case dt SAT 2 name self) (\<lambda>self.
           may_day_case dt SUN 1 name self))))))))
      else Inr self)"

definition spring_bank_holiday :: "int \<Rightarrow> holidays \<Rightarrow> error + holidays" where
  "spring_bank_holiday year self =
     (let name = ''Spring Bank Holiday'' in
      if year = 2012 then assign (date year JUN 4) name self
      else if year = 2022 then assign (date year JUN 2) name self
      else if year \<ge> 1971 then
        assign (bind_result (date year MAY 31) (\<lambda>d. radd d 0 (MO (- 1)))) name self
      else Inr self)"

definition late_summer_bank_holiday :: "int \<Rightarrow> string \<Rightarrow> holidays \<Rightarrow> error + holidays" where
  "late_summer_bank_holiday year subdiv self =
     (if subdiv \<noteq> ''Scotland'' \<and> year \<ge> 1971 then
        (let name = ''Late Summer Bank Holiday'';
             name = (if subdiv = ''UK''
                     then name @ '' [England/Wales/Northern Ireland]'' else name) in
         assign (bind_result (date year AUG 31) (\<lambda>d. radd d 0 (MO (- 1)))) name self)
      else Inr self)"

definition boxing_day :: "int \<Rightarrow> bool \<Rightarrow> holidays \<Rightarrow> error + holidays" where
  "boxing_day year observed self =
     (let name = ''Boxing Day'' in
      bind_result (assign (date year DEC 26) name self) (\<lambda>self.
      bind_result (observed_and observed (weekday_is (date year DEC 26) SAT)) (\<lambda>c.
      if c then assign (date year DEC 28) (name @ '' (Observed)'') self
      else
        bind_result (observed_and observed (weekday_is (date year DEC 26) SUN)) (\<lambda>c.
        if c then assign (date year DEC 28) (name @ '' (Observed)'') self
        else Inr self))))"

definition country_specific :: "int \<Rightarrow> string \<Rightarrow> bool \<Rightarrow> holidays \<Rightarrow> error + holidays" where
  "country_specific year subdiv observed self =
     bind_result (good_friday year self) (\<lambda>self.
     bind_result (easter_monday year subdiv self) (\<lambda>self.
     bind_result (may_day year self) (\<lambda>self.
     bind_result (spring_bank_holiday year self) (\<lambda>self.
     bind_result (late_summer_bank_holiday year subdiv self) (\<lambda>self.
     boxing_day year observed self)))))"

text \<open>
  \<^verbatim>\<open>_additional_holidays\<close> hands over to \<^verbatim>\<open>IsleOfMan._additional_holidays\<close>
  for the legacy subdivision "Isle of Man"; that class is not among the sources and is the
  parameter \<open>iom\<close>. The deprecation warning has no effect on the dictionary.
\<close>

definition additional_holidays ::
  "(int \<Rightarrow> holidays \<Rightarrow> error + holidays) \<Rightarrow> int \<Rightarrow> string \<Rightarrow> holidays \<Rightarrow> error + holidays" where
  "additional_holidays iom year subdiv self =
     (if subdiv = ''Isle of Man'' then iom year self else Inr self)"

definition populate ::
  "(int \<Rightarrow> holidays \<Rightarrow> error + holidays) \<Rightarrow> int \<Rightarrow> string \<Rightarrow> bool \<Rightarrow> holidays \<Rightarrow> error + holidays" where
  "populate iom year subdiv observed self =
     bind_result (HolidayBase_populate year self) (\<lambda>self.
     bind_result (new_years_day year observed self) (\<lambda>self.
     bind_result (new_year_holiday year subdiv observed self) (\<lambda>self.
     bind_result (st_patricks_day year subdiv observed self) (\<lambda>self.
     bind_result (battle_of_the_boyne year subdiv self) (\<lambda>self.
     bind_result (summer_bank_holiday year subdiv self) (\<lambda>self.
     bind_result (st_andrews_day year subdiv self) (\<lambda>self.
     bind_result (christmas_day year observed self) (\<lambda>self.
     bind_result (country_specific year subdiv observed self) (\<lambda>self.
     additional_holidays iom year subdiv self)))))))))"

section \<open>Vocabulary of the properties\<close>

text \<open>
  The assignments with a given name, those to a given date, those whose name starts with
  a given text, and the dates that received an assignment (the keys of the dictionary).
\<close>

definition entries_named :: "string \<Rightarrow> holidays \<Rightarrow> holidays" where
  "entries_named name self = filter (\<lambda>e. snd e = name) self"

definition entries_on :: "date \<Rightarrow> holidays \<Rightarrow> holidays" where
  "entries_on d self = filter (\<lambda>e. fst e = d) self"

definition entries_starting :: "string \<Rightarrow> holidays \<Rightarrow> holidays" where
  "entries_starting p self = filter (\<lambda>e. take (length p) (snd e) = p) self"

definition dates :: "holidays \<Rightarrow> date set" where
  "dates self = fst ` set self"

text \<open>
  The region qualifier of a name: the text between the brackets of a suffix such as
  \<^verbatim>\<open> [England/Wales/Northern Ireland]\<close>, the regions it lists, the name without the
  suffix, and the view of a "UK" result from one region: the entries that apply to the
  region (those without a qualifier and those whose qualifier lists it), undecorated.
\<close>

fun split_on :: "char \<Rightarrow> string \<Rightarrow> string list" where
  "split_on c [] = [[]]"
| "split_on c (x # xs) =
     (if x = c then [] # split_on c xs
      else (case split_on c xs of [] \<Rightarrow> [[x]] | w # ws \<Rightarrow> (x # w) # ws))"

definition qualifier :: "string \<Rightarrow> string" where
  "qualifier name =
     takeWhile (\<lambda>c. c \<noteq> CHR '']'') (drop 1 (dropWhile (\<lambda>c. c \<noteq> CHR ''['') name))"

definition qualifier_regions :: "string \<Rightarrow> string list" where
  "qualifier_regions name =
     (if CHR ''['' \<in> set name then split_on (CHR ''/'') (qualifier name) else [])"

definition undecorate :: "string \<Rightarrow> string" where
  "undecorate name =
     (if CHR ''['' \<in> set name
      then butlast (takeWhile (\<lambda>c. c \<noteq> CHR ''['') name) @
           drop 1 (dropWhile (\<lambda>c. c \<noteq> CHR '']'') name)
      else name)"

definition applies_to :: "string \<Rightarrow> string \<Rightarrow> bool" where
  "applies_to region name =
     (CHR ''['' \<notin> set name \<or> region \<in> set (qualifier_regions name))"

definition regions :: "string list" where
  "regions = [''England'', ''Northern Ireland'', ''Scotland'', ''Wales'']"

definition region_view :: "string \<Rightarrow> holidays \<Rightarrow> holidays" where
  "region_view region self =
     map (\<lambda>(d, name). (d, undecorate name)) (filter (\<lambda>(d, name). applies_to region name) self)"

text \<open>
  A name is well qualified when removing its qualifier leaves no bracket and, if it has a
  qualifier, the qualifier lists regions only, at least one of them and not all four.
\<close>

definition well_qualified :: "string \<Rightarrow> bool" where
  "well_qualified name =
     (CHR ''['' \<notin> set (undecorate name) \<and>
      (CHR ''['' \<in> set name \<longrightarrow>
         qualifier_regions name \<noteq> [] \<and>
         (\<forall>q \<in> set (qualifier_regions name). q \<in> set regions) \<and>
         (\<exists>r \<in> set regions. r \<notin> set (qualifier_regions name))))"

section \<open>Basic facts about the model\<close>

lemma bind_result_Inr [simp]: "bind_result (Inr v) f = f v"
  by (simp add: bind_result_def)

lemma bind_result_Inl [simp]: "bind_result (Inl e) f = Inl e"
  by (simp add: bind_result_def)

subsection \<open>Dates\<close>

lemma div_100_400:
  "(x::int) div 100 = x div 4 div 25" "(x::int) div 400 = x div 4 div 25 div 4"
  by (simp_all add: zdiv_zmult2_eq[symmetric])

lemma days_before_year_bounds:
  assumes "1 \<le> y" "y \<le> 9999"
  shows "0 \<le> days_before_year y \<and> days_before_year y \<le> 3651694"
proof -
  define x where "x = y - 1"
  define q where "q = x div 4"
  define r where "r = q div 25"
  define t where "t = r div 4"
  have x: "0 \<le> x" "x \<le> 9998" using assms by (simp_all add: x_def)
  have q: "4 * q \<le> x \<and> x < 4 * q + 4" unfolding q_def by linarith
  have r: "25 * r \<le> q \<and> q < 25 * r + 25" unfolding r_def by linarith
  have t: "4 * t \<le> r \<and> r < 4 * t + 4" unfolding t_def by linarith
  have q': "0 \<le> q \<and> q \<le> 2499"
    using zdiv_mono1[of 0 x 4] zdiv_mono1[of x 9998 4] x by (simp add: q_def)
  have r': "0 \<le> r \<and> r \<le> 99"
    using zdiv_mono1[of 0 q 25] zdiv_mono1[of q 2499 25] q' by (simp add: r_def)
  have t': "0 \<le> t \<and> t \<le> 24"
    using zdiv_mono1[of 0 r 4] zdiv_mono1[of r 99 4] r' by (simp add: t_def)
  have "days_before_year y = x * 365 + q - r + t"
    by (simp add: days_before_year_def Let_def div_100_400 x_def q_def r_def t_def)
  then show ?thesis using x q r t q' r' t' by linarith
qed

lemma days_in_month_numeral:
  "days_in_month y 1 = 31" "days_in_month y 2 = (if is_leap y then 29 else 28)"
  "days_in_month y 3 = 31" "days_in_month y 4 = 30" "days_in_month y 5 = 31"
  "days_in_month y 6 = 30" "days_in_month y 7 = 31" "days_in_month y 8 = 31"
  "days_in_month y 9 = 30" "days_in_month y 10 = 31" "days_in_month y 11 = 30"
  "days_in_month y 12 = 31"
  by (simp_all add: days_in_month_def DAYS_IN_MONTH_def)

lemma days_before_month_numeral:
  "days_before_month y 1 = 0" "days_before_month y 2 = 31"
  "days_before_month y 3 = 59 + (if is_leap y then 1 else 0)"
  "days_before_month y 4 = 90 + (if is_leap y then 1 else 0)"
  "days_before_month y 5 = 120 + (if is_leap y then 1 else 0)"
  "days_before_month y 6 = 151 + (if is_leap y then 1 else 0)"
  "days_before_month y 7 = 181 + (if is_leap y then 1 else 0)"
  "days_before_month y 8 = 212 + (if is_leap y then 1 else 0)"
  "days_before_month y 9 = 243 + (if is_leap y then 1 else 0)"
  "days_before_month y 10 = 273 + (if is_leap y then 1 else 0)"
  "days_before_month y 11 = 304 + (if is_leap y then 1 else 0)"
  "days_before_month y 12 = 334 + (if is_leap y then 1 else 0)"
  by (simp_all add: days_before_month_def DAYS_BEFORE_MONTH_def)

lemma month_cases:
  assumes "1 \<le> (m::int)" "m \<le> 12"
  shows "m = 1 \<or> m = 2 \<or> m = 3 \<or> m = 4 \<or> m = 5 \<or> m = 6 \<or> m = 7 \<or> m = 8 \<or> m = 9
     \<or> m = 10 \<or> m = 11 \<or> m = 12"
  using assms by presburger

lemma days_before_month_bounds:
  assumes "1 \<le> m" "m \<le> 12"
  shows "(if m = 1 then 0 else 31) \<le> days_before_month y m
     \<and> days_before_month y m \<le> (if m = 12 then 335 else 305)"
  using month_cases[OF assms] by (auto simp: days_before_month_numeral)

lemma date_Inr:
  "1 \<le> y \<Longrightarrow> y \<le> 9999 \<Longrightarrow> 1 \<le> m \<Longrightarrow> m \<le> 12 \<Longrightarrow> 1 \<le> d \<Longrightarrow> d \<le> days_in_month y m
   \<Longrightarrow> date y m d = Inr (ymd2ord y m d)"
  by (simp add: date_def MINYEAR_def MAXYEAR_def)

lemma date_Inl:
  "y < 1 \<or> 9999 < y \<Longrightarrow> date y m d = Inl ValueError"
  by (auto simp add: date_def MINYEAR_def MAXYEAR_def)

lemma weekday_range [simp]: "0 \<le> weekday d" "weekday d < 7" "weekday d \<le> 6"
  by (simp_all add: weekday_def)

lemma weekday_mod [simp]: "weekday d mod 7 = weekday d"
  by (simp add: weekday_def)

lemma add_timedelta_ymd:
  assumes "1 \<le> y" "y \<le> 9999" "1 \<le> m" "m \<le> 12"
    and "(if m = 1 then 1 else -27) \<le> d + n" "d + n \<le> (if m = 12 then 30 else 58)"
  shows "add_timedelta (ymd2ord y m d) n = Inr (ymd2ord y m (d + n))"
proof -
  have "0 < days_before_month y m + (d + n) \<and> days_before_month y m + (d + n) \<le> 365"
    using days_before_month_bounds[OF assms(3,4), of y] assms(5,6)
    by (auto split: if_splits)
  with days_before_year_bounds[OF assms(1,2)] show ?thesis
    by (simp add: add_timedelta_def ymd2ord_def MAXORDINAL_def Let_def)
qed

lemma radd_days:
  assumes "1 \<le> y" "y \<le> 9999" "1 \<le> m" "m \<le> 12"
    and "(if m = 1 then 1 else -27) \<le> d + n" "d + n \<le> (if m = 12 then 30 else 58)"
  shows "radd (ymd2ord y m d) n None = Inr (ymd2ord y m (d + n))"
  by (simp add: radd_def add_timedelta_ymd[OF assms])

lemma radd_weekday_forward:
  assumes "1 \<le> y" "y \<le> 9999" "2 \<le> m" "m \<le> 11" "1 \<le> d" "d \<le> 31"
  shows "radd (ymd2ord y m d) 0 (Some (w, 1)) =
         Inr (ymd2ord y m (d + (7 - weekday (ymd2ord y m d) + w) mod 7))"
proof -
  have a: "add_timedelta (ymd2ord y m d) 0 = Inr (ymd2ord y m d)"
    using add_timedelta_ymd[of y m d 0] assms by simp
  have "0 \<le> (7 - weekday (ymd2ord y m d) + w) mod 7" "(7 - weekday (ymd2ord y m d) + w) mod 7 < 7"
    by simp_all
  then have b: "add_timedelta (ymd2ord y m d) ((7 - weekday (ymd2ord y m d) + w) mod 7) =
      Inr (ymd2ord y m (d + (7 - weekday (ymd2ord y m d) + w) mod 7))"
    using assms by (intro add_timedelta_ymd) auto
  show ?thesis by (simp add: radd_def a b)
qed

lemma radd_weekday_backward:
  assumes "1 \<le> y" "y \<le> 9999" "2 \<le> m" "m \<le> 11" "1 \<le> d" "d \<le> 31"
  shows "radd (ymd2ord y m d) 0 (Some (w, - 1)) =
         Inr (ymd2ord y m (d - (weekday (ymd2ord y m d) - w) mod 7))"
proof -
  have a: "add_timedelta (ymd2ord y m d) 0 = Inr (ymd2ord y m d)"
    using add_timedelta_ymd[of y m d 0] assms by simp
  have "0 \<le> (weekday (ymd2ord y m d) - w) mod 7" "(weekday (ymd2ord y m d) - w) mod 7 < 7"
    by simp_all
  then have b: "add_timedelta (ymd2ord y m d) (- ((weekday (ymd2ord y m d) - w) mod 7)) =
      Inr (ymd2ord y m (d + - ((weekday (ymd2ord y m d) - w) mod 7)))"
    using assms by (intro add_timedelta_ymd) auto
  show ?thesis by (simp add: radd_def a b)
qed

lemma add_special_valid:
  assumes "\<And>m d n. (m, d, n) \<in> set l \<Longrightarrow> date year m d = Inr (ymd2ord year m d)"
  shows "add_special year l self = Inr (self @ map (\<lambda>(m, d, n). (ymd2ord year m d, n)) l)"
  using assms
proof (induction l arbitrary: self)
  case Nil
  then show ?case by simp
next
  case (Cons e l)
  obtain m d n where e: "e = (m, d, n)" by (cases e) auto
  have "date year m d = Inr (ymd2ord year m d)" using Cons.prems[of m d n] e by simp
  moreover have "add_special year l (setitem (ymd2ord year m d) n self) =
      Inr (setitem (ymd2ord year m d) n self @ map (\<lambda>(m, d, n). (ymd2ord year m d, n)) l)"
    using Cons.prems by (intro Cons.IH) auto
  ultimately show ?case by (simp add: e setitem_def)
qed

lemma HolidayBase_populate_valid:
  "HolidayBase_populate year self =
     Inr (self @ map (\<lambda>(m, d, n). (ymd2ord year m d, n))
       (case map_of special_holidays year of None \<Rightarrow> [] | Some l \<Rightarrow> l))"
  unfolding HolidayBase_populate_def
  by (rule add_special_valid)
     (auto simp: special_holidays_def date_Inr days_in_month_numeral
        JUN_def JUL_def DEC_def APR_def SEP_def split: if_splits)

subsection \<open>Easter falls on a Sunday\<close>

lemma div_pred:
  fixes y k :: int
  assumes "0 < k"
  shows "(y - 1) div k = y div k - (if y mod k = 0 then 1 else 0)"
proof -
  define q where "q = y div k"
  define r where "r = y mod k"
  have y: "y = r + k * q" by (simp add: q_def r_def)
  have r: "0 \<le> r" "r < k" using assms by (simp_all add: r_def)
  show ?thesis
  proof (cases "r = 0")
    case True
    have "y - 1 = (k - 1) + k * (q - 1)" using y True by (simp add: algebra_simps)
    then have "(y - 1) div k = (q - 1) + (k - 1) div k"
      using assms by (simp only: div_mult_self2) 
    also have "(k - 1) div k = 0" using assms by (intro div_pos_pos_trivial) auto
    finally show ?thesis using True by (simp add: q_def r_def)
  next
    case False
    have "y - 1 = (r - 1) + k * q" using y by simp
    then have "(y - 1) div k = q + (r - 1) div k"
      using assms by (simp only: div_mult_self2)
    also have "(r - 1) div k = 0" using assms r False by (intro div_pos_pos_trivial) auto
    finally show ?thesis using False by (simp add: q_def r_def)
  qed
qed

lemma leap_identity:
  "(y - 1) div 4 - (y - 1) div 100 + (y - 1) div 400 + (if is_leap y then 1 else 0)
   = y div 4 - y div 100 + y div 400"
proof -
  have b: "y mod 100 = 0 \<Longrightarrow> y mod 4 = 0"
    using dvd_trans[of 4 100 y] by (simp add: mod_eq_0_iff_dvd)
  have a': "y mod 400 = 0 \<Longrightarrow> y mod 100 = 0"
    using dvd_trans[of 100 400 y] by (simp add: mod_eq_0_iff_dvd)
  show ?thesis using a' b
    by (auto simp add: div_pred is_leap_def)
qed

lemma easter_i_bounds:
  fixes h g :: int
  assumes "0 \<le> h" "h \<le> 29" "0 \<le> g" "g \<le> 18"
  shows "0 \<le> h - (h div 28) * (1 - (h div 28) * (29 div (h + 1)) * ((21 - g) div 11))
     \<and> h - (h div 28) * (1 - (h div 28) * (29 div (h + 1)) * ((21 - g) div 11)) \<le> 28"
proof -
  consider "h < 28" | "h = 28" | "h = 29" using assms by linarith
  then show ?thesis
  proof cases
    case 1
    then have "h div 28 = 0" using assms by (intro div_pos_pos_trivial) auto
    then show ?thesis using 1 assms by simp
  next
    case 2
    have "0 \<le> (21 - g) div 11 \<and> (21 - g) div 11 \<le> 1"
      using zdiv_mono1[of 0 "21 - g" 11] zdiv_mono1[of "21 - g" 21 11] assms by simp
    then show ?thesis using 2 by simp
  next
    case 3
    then show ?thesis by simp
  qed
qed

lemma easter_sunday:
  assumes "1 \<le> y" "y \<le> 9999"
  shows "\<exists>p. - 6 \<le> p \<and> p \<le> 28 \<and> easter y = Inr (ymd2ord y 3 (28 + p))
            \<and> weekday (ymd2ord y 3 (28 + p)) = 6"
proof -
  define g where "g = y mod 19"
  define c where "c = y div 100"
  define h where "h = (c - c div 4 - (8 * c + 13) div 25 + 19 * g + 15) mod 30"
  define i where "i = h - (h div 28) * (1 - (h div 28) * (29 div (h + 1)) * ((21 - g) div 11))"
  define j where "j = (y + y div 4 + i + 2 - c + c div 4) mod 7"
  define p where "p = i - j"
  have g: "0 \<le> g" "g \<le> 18" by (simp_all add: g_def) 
  have h: "0 \<le> h" "h \<le> 29" by (simp_all add: h_def)
  have i: "0 \<le> i" "i \<le> 28" using easter_i_bounds[OF h g] by (simp_all add: i_def)
  have j: "0 \<le> j" "j \<le> 6" by (simp_all add: j_def)
  have p: "- 6 \<le> p" "p \<le> 28" using i j by (simp_all add: p_def)
  have e: "easter y = date y (3 + (p + 26) div 30) (1 + (p + 27 + (p + 6) div 40) mod 31)"
    unfolding p_def j_def i_def h_def c_def g_def
    by (simp only: easter_def Let_def add_0_right)
  have p6: "(p + 6) div 40 = 0" using p by (intro div_pos_pos_trivial) auto
  have val: "easter y = Inr (ymd2ord y 3 (28 + p))"
  proof (cases "p \<le> 3")
    case True
    then have m: "(p + 26) div 30 = 0" using p by (intro div_pos_pos_trivial) auto
    have d: "(p + 27) mod 31 = p + 27" using p True by (intro mod_pos_pos_trivial) auto
    show ?thesis using p True assms
      by (simp add: e p6 m d date_Inr days_in_month_numeral add.commute)
  next
    case False
    have "(p + 26) div 30 = (p - 4) div 30 + 1"
      using div_add_self2[of 30 "p - 4"] by simp
    moreover have "(p - 4) div 30 = 0" using p False by (intro div_pos_pos_trivial) auto
    ultimately have m: "(p + 26) div 30 = 1" by simp
    have "(p + 27) mod 31 = (p - 4) mod 31" using mod_add_self2[of "p - 4" 31] by (simp add: add.commute)
    moreover have "(p - 4) mod 31 = p - 4" using p False by (intro mod_pos_pos_trivial) auto
    ultimately have d: "(p + 27) mod 31 = p - 4" by simp
    have "date y 4 (p - 3) = Inr (ymd2ord y 4 (p - 3))"
      using p False assms by (intro date_Inr) (auto simp: days_in_month_numeral)
    moreover have "ymd2ord y 4 (p - 3) = ymd2ord y 3 (28 + p)"
      by (simp add: ymd2ord_def days_before_month_numeral)
    ultimately show ?thesis by (simp add: e p6 m d)
  qed
  have "days_before_year y + (if is_leap y then 1 else 0)
      = (y - 1) * 365 + (y div 4 - y div 100 + y div 400)"
    using leap_identity[of y] by (simp add: days_before_year_def Let_def)
  moreover have "c div 4 = y div 400" by (simp add: c_def zdiv_zmult2_eq[symmetric])
  ultimately have "ymd2ord y 3 (28 + i) - (y + y div 4 + i + 2 - c + c div 4) = 7 * (52 * y - 40)"
    by (simp add: ymd2ord_def days_before_month_numeral c_def)
  then have "(ymd2ord y 3 (28 + i) - (y + y div 4 + i + 2 - c + c div 4)) mod 7 = 0"
    by (simp only: mod_mult_self1_is_0)
  then have "(ymd2ord y 3 (28 + i) - j) mod 7 = 0"
    unfolding j_def by (simp add: mod_diff_right_eq)
  moreover have "ymd2ord y 3 (28 + i) - j = ymd2ord y 3 (28 + p)"
    by (simp add: ymd2ord_def p_def)
  ultimately have "ymd2ord y 3 (28 + p) mod 7 = 0" by simp
  then have "weekday (ymd2ord y 3 (28 + p)) = 6"
    unfolding weekday_def by presburger
  with p val show ?thesis by blast
qed

subsection \<open>What each block inserts in a year that \<^verbatim>\<open>date\<close> accepts\<close>

lemmas month_defs = JAN_def MAR_def APR_def MAY_def JUN_def JUL_def AUG_def SEP_def NOV_def DEC_def
lemmas weekday_defs = MON_def TUE_def WED_def THU_def FRI_def SAT_def SUN_def WEEKEND_def

lemma new_years_day_valid:
  assumes "1 \<le> year" "year \<le> 9999"
  shows "new_years_day year observed self =
    Inr (self @
      (if 1974 \<le> year then
         (ymd2ord year 1 1, ''New Year's Day'') #
         (if observed \<and> weekday (ymd2ord year 1 1) = 6
          then [(ymd2ord year 1 2, ''New Year's Day (Observed)'')]
          else if observed \<and> weekday (ymd2ord year 1 1) = 5
          then [(ymd2ord year 1 3, ''New Year's Day (Observed)'')]
          else [])
       else []))"
  using assms
  by (simp add: new_years_day_def assign_def observed_and_def weekday_is_def setitem_def
      month_defs weekday_defs date_Inr days_in_month_numeral radd_days)

lemma new_year_holiday_valid:
  assumes "1 \<le> year" "year \<le> 9999"
  shows "new_year_holiday year subdiv observed self =
    Inr (self @
      (if subdiv = ''UK'' \<or> subdiv = ''Scotland'' then
         (ymd2ord year 1 2,
            ''New Year Holiday'' @ (if subdiv = ''UK'' then '' [Scotland]'' else [])) #
         (if observed \<and> (weekday (ymd2ord year 1 2) = 5 \<or> weekday (ymd2ord year 1 2) = 6)
          then [(ymd2ord year 1 4,
            ''New Year Holiday'' @ (if subdiv = ''UK'' then '' [Scotland]'' else [])
               @ '' (Observed)'')]
          else if observed \<and> weekday (ymd2ord year 1 2) = 0
          then [(ymd2ord year 1 3,
            ''New Year Holiday'' @ (if subdiv = ''UK'' then '' [Scotland]'' else [])
               @ '' (Observed)'')]
          else [])
       else []))"
  using assms
  by (simp add: new_year_holiday_def assign_def observed_and_def weekday_is_def
      weekday_in_def setitem_def
      month_defs weekday_defs date_Inr days_in_month_numeral radd_days)

lemma st_patricks_day_valid:
  assumes "1 \<le> year" "year \<le> 9999"
  shows "st_patricks_day year subdiv observed self =
    Inr (self @
      (if subdiv = ''UK'' \<or> subdiv = ''Northern Ireland'' then
         (ymd2ord year 3 17,
            ''St. Patrick's Day'' @ (if subdiv = ''UK'' then '' [Northern Ireland]'' else [])) #
         (if observed \<and> (weekday (ymd2ord year 3 17) = 5 \<or> weekday (ymd2ord year 3 17) = 6)
          then [(ymd2ord year 3 (17 + (7 - weekday (ymd2ord year 3 17)) mod 7),
            ''St. Patrick's Day'' @ (if subdiv = ''UK'' then '' [Northern Ireland]'' else [])
               @ '' (Observed)'')]
          else [])
       else []))"
  using assms
  by (simp add: st_patricks_day_def assign_def observed_and_def weekday_is_def
      weekday_in_def setitem_def MO_def
      month_defs weekday_defs date_Inr days_in_month_numeral radd_weekday_forward)

lemma battle_of_the_boyne_valid:
  assumes "1 \<le> year" "year \<le> 9999"
  shows "battle_of_the_boyne year subdiv self =
    Inr (self @
      (if subdiv = ''UK'' \<or> subdiv = ''Northern Ireland'' then
         [(ymd2ord year 7 12,
            ''Battle of the Boyne'' @ (if subdiv = ''UK'' then '' [Northern Ireland]'' else []))]
       else []))"
  using assms
  by (simp add: battle_of_the_boyne_def assign_def setitem_def
      month_defs date_Inr days_in_month_numeral)

lemma summer_bank_holiday_valid:
  assumes "1 \<le> year" "year \<le> 9999"
  shows "summer_bank_holiday year subdiv self =
    Inr (self @
      (if subdiv = ''UK'' \<or> subdiv = ''Scotland'' then
         [(ymd2ord year 8 (1 + (7 - weekday (ymd2ord year 8 1)) mod 7),
            ''Summer Bank Holiday'' @ (if subdiv = ''UK'' then '' [Scotland]'' else []))]
       else []))"
  using assms
  by (simp add: summer_bank_holiday_def assign_def setitem_def MO_def
      month_defs date_Inr days_in_month_numeral radd_weekday_forward)

lemma st_andrews_day_valid:
  assumes "1 \<le> year" "year \<le> 9999"
  shows "st_andrews_day year subdiv self =
    Inr (self @
      (if subdiv = ''UK'' \<or> subdiv = ''Scotland'' then
         [(ymd2ord year 11 30,
            ''St. Andrew's Day'' @ (if subdiv = ''UK'' then '' [Scotland]'' else []))]
       else []))"
  using assms
  by (simp add: st_andrews_day_def assign_def setitem_def
      month_defs date_Inr days_in_month_numeral)

lemma christmas_day_valid:
  assumes "1 \<le> year" "year \<le> 9999"
  shows "christmas_day year observed self =
    Inr (self @
         (ymd2ord year 12 25, ''Christmas Day'') #
         (if observed \<and> (weekday (ymd2ord year 12 25) = 5 \<or> weekday (ymd2ord year 12 25) = 6)
          then [(ymd2ord year 12 27, ''Christmas Day (Observed)'')]
          else []))"
  using assms
  by (simp add: christmas_day_def assign_def observed_and_def weekday_is_def setitem_def
      month_defs weekday_defs date_Inr days_in_month_numeral)

lemma boxing_day_valid:
  assumes "1 \<le> year" "year \<le> 9999"
  shows "boxing_day year observed self =
    Inr (self @
         (ymd2ord year 12 26, ''Boxing Day'') #
         (if observed \<and> (weekday (ymd2ord year 12 26) = 5 \<or> weekday (ymd2ord year 12 26) = 6)
          then [(ymd2ord year 12 28, ''Boxing Day (Observed)'')]
          else []))"
  using assms
  by (simp add: boxing_day_def assign_def observed_and_def weekday_is_def setitem_def
      month_defs weekday_defs date_Inr days_in_month_numeral)

lemma spring_bank_holiday_valid:
  assumes "1 \<le> year" "year \<le> 9999"
  shows "spring_bank_holiday year self =
    Inr (self @
      (if year = 2012 then [(ymd2ord year 6 4, ''Spring Bank Holiday'')]
       else if year = 2022 then [(ymd2ord year 6 2, ''Spring Bank Holiday'')]
       else if 1971 \<le> year then
         [(ymd2ord year 5 (31 - weekday (ymd2ord year 5 31)), ''Spring Bank Holiday'')]
       else []))"
  using assms
  by (simp add: spring_bank_holiday_def assign_def setitem_def MO_def
      month_defs date_Inr days_in_month_numeral radd_weekday_backward)

lemma late_summer_bank_holiday_valid:
  assumes "1 \<le> year" "year \<le> 9999"
  shows "late_summer_bank_holiday year subdiv self =
    Inr (self @
      (if subdiv \<noteq> ''Scotland'' \<and> 1971 \<le> year then
         [(ymd2ord year 8 (31 - weekday (ymd2ord year 8 31)),
           ''Late Summer Bank Holiday'' @
             (if subdiv = ''UK'' then '' [England/Wales/Northern Ireland]'' else []))]
       else []))"
  using assms
  by (simp add: late_summer_bank_holiday_def assign_def setitem_def MO_def
      month_defs date_Inr days_in_month_numeral radd_weekday_backward)

lemma easter_valid:
  assumes "1 \<le> year" "year \<le> 9999"
  shows "\<exists>e. easter year = Inr e \<and> weekday e = 6
           \<and> ymd2ord year 3 22 \<le> e \<and> e \<le> ymd2ord year 4 25
           \<and> radd e 0 (FR (- 1)) = Inr (e - 2) \<and> radd e 0 (MO 1) = Inr (e + 1)"
proof -
  from easter_sunday[OF assms] obtain p where p: "- 6 \<le> p" "p \<le> 28"
    and e: "easter year = Inr (ymd2ord year 3 (28 + p))"
    and w: "weekday (ymd2ord year 3 (28 + p)) = 6" by blast
  have a0: "add_timedelta (ymd2ord year 3 (28 + p)) 0 = Inr (ymd2ord year 3 (28 + p))"
    using add_timedelta_ymd[of year 3 "28 + p" 0] assms p by simp
  have a1: "add_timedelta (ymd2ord year 3 (28 + p)) 1 = Inr (ymd2ord year 3 (28 + p) + 1)"
    using add_timedelta_ymd[of year 3 "28 + p" 1] assms p by (simp add: ymd2ord_def)
  have a2: "add_timedelta (ymd2ord year 3 (28 + p)) (- 2) = Inr (ymd2ord year 3 (28 + p) - 2)"
    using add_timedelta_ymd[of year 3 "28 + p" "- 2"] assms p by (simp add: ymd2ord_def)
  have "ymd2ord year 3 22 \<le> ymd2ord year 3 (28 + p)" "ymd2ord year 3 (28 + p) \<le> ymd2ord year 4 25"
    using p by (simp_all add: ymd2ord_def days_before_month_numeral)
  then show ?thesis using e w a0 a1 a2
    by (simp add: radd_def FR_def MO_def)
qed

lemma good_friday_valid:
  assumes "easter year = Inr e" "radd e 0 (FR (- 1)) = Inr (e - 2)"
  shows "good_friday year self = Inr (self @ [(e - 2, ''Good Friday'')])"
  using assms by (simp add: good_friday_def assign_def setitem_def)

lemma easter_monday_valid:
  assumes "easter year = Inr e" "radd e 0 (MO 1) = Inr (e + 1)"
  shows "easter_monday year subdiv self =
    Inr (self @
      (if subdiv \<noteq> ''Scotland'' then
         [(e + 1, ''Easter Monday'' @
             (if subdiv = ''UK'' then '' [England/Wales/Northern Ireland]'' else []))]
       else []))"
  using assms by (simp add: easter_monday_def assign_def setitem_def)

lemma may_day_cases:
  assumes "1 \<le> year" "year \<le> 9999" "1 \<le> d" "d \<le> 8"
  shows "bind_result (if weekday (ymd2ord year 5 d) = MON
                      then assign (Inr (ymd2ord year 5 d)) name self else Inr self) (\<lambda>self.
         bind_result (may_day_case (ymd2ord year 5 d) TUE 6 name self) (\<lambda>self.
         bind_result (may_day_case (ymd2ord year 5 d) WED 5 name self) (\<lambda>self.
         bind_result (may_day_case (ymd2ord year 5 d) THU 4 name self) (\<lambda>self.
         bind_result (may_day_case (ymd2ord year 5 d) FRI 3 name self) (\<lambda>self.
         bind_result (may_day_case (ymd2ord year 5 d) SAT 2 name self) (\<lambda>self.
         may_day_case (ymd2ord year 5 d) SUN 1 name self))))))
       = Inr (self @ [(ymd2ord year 5 (d + (7 - weekday (ymd2ord year 5 d)) mod 7), name)])"
proof -
  have "weekday (ymd2ord year 5 d) \<in> {0, 1, 2, 3, 4, 5, 6}"
    using weekday_range[of "ymd2ord year 5 d"] by (simp del: weekday_range) presburger
  then show ?thesis using assms
    by (auto simp: may_day_case_def assign_def setitem_def weekday_defs radd_days)
qed

lemma may_day_valid:
  assumes "1 \<le> year" "year \<le> 9999"
  shows "may_day year self =
    Inr (self @
      (if 1978 \<le> year then
         (if year = 2020 then [(ymd2ord year 5 8, ''May Day'')]
          else if year = 1995
          then [(ymd2ord year 5 (8 + (7 - weekday (ymd2ord year 5 8)) mod 7), ''May Day'')]
          else [(ymd2ord year 5 (1 + (7 - weekday (ymd2ord year 5 1)) mod 7), ''May Day'')])
       else []))"
  using assms
  by (simp add: may_day_def may_day_cases month_defs date_Inr days_in_month_numeral
      assign_def setitem_def)

subsection \<open>Reading off the entries with a given name\<close>

lemma entries_named_simps [simp]:
  "entries_named n [] = []"
  "entries_named n (e # es) = (if snd e = n then e # entries_named n es else entries_named n es)"
  "entries_named n (xs @ ys) = entries_named n xs @ entries_named n ys"
  "entries_named n (if c then xs else ys) = (if c then entries_named n xs else entries_named n ys)"
  by (simp_all add: entries_named_def)

lemmas block_valid = new_years_day_valid new_year_holiday_valid st_patricks_day_valid
  battle_of_the_boyne_valid summer_bank_holiday_valid st_andrews_day_valid christmas_day_valid
  may_day_valid spring_bank_holiday_valid late_summer_bank_holiday_valid boxing_day_valid
  HolidayBase_populate_valid

lemma subdivisions_not_isle_of_man: "subdiv \<in> set subdivisions \<Longrightarrow> subdiv \<noteq> ''Isle of Man''"
  by (auto simp: subdivisions_def)

lemma special_entries_unfold:
  "map (\<lambda>(m, d, n). (ymd2ord year m d, n))
       (case map_of special_holidays year of None \<Rightarrow> [] | Some l \<Rightarrow> l) =
   (if year = 1977 then [(ymd2ord year 6 7, ''Silver Jubilee of Elizabeth II'')]
    else if year = 1981 then [(ymd2ord year 7 29, ''Wedding of Charles and Diana'')]
    else if year = 1999 then [(ymd2ord year 12 31, ''Millennium Celebrations'')]
    else if year = 2002 then [(ymd2ord year 6 3, ''Golden Jubilee of Elizabeth II'')]
    else if year = 2011 then [(ymd2ord year 4 29, ''Wedding of William and Catherine'')]
    else if year = 2012 then [(ymd2ord year 6 5, ''Diamond Jubilee of Elizabeth II'')]
    else if year = 2022 then [(ymd2ord year 6 3, ''Platinum Jubilee of Elizabeth II''),
                              (ymd2ord year 9 19, ''State Funeral of Queen Elizabeth II'')]
    else [])"
  by (simp add: special_holidays_def month_defs)

lemma new_years_day_entries:
  assumes "1 \<le> year" "year \<le> 9999" "subdiv \<noteq> ''Isle of Man''"
  shows "\<exists>s. populate iom year subdiv observed [] = Inr s \<and>
     entries_named ''New Year's Day'' s =
       (if 1974 \<le> year then [(ymd2ord year 1 1, ''New Year's Day'')] else []) \<and>
     entries_named ''New Year's Day (Observed)'' s =
       (if 1974 \<le> year then
         (if observed \<and> weekday (ymd2ord year 1 1) = 6
          then [(ymd2ord year 1 2, ''New Year's Day (Observed)'')]
          else if observed \<and> weekday (ymd2ord year 1 1) = 5
          then [(ymd2ord year 1 3, ''New Year's Day (Observed)'')]
          else [])
       else [])"
proof -
  from easter_valid[OF assms(1,2)] obtain e where e: "easter year = Inr e"
    "radd e 0 (FR (- 1)) = Inr (e - 2)" "radd e 0 (MO 1) = Inr (e + 1)" by blast
  show ?thesis
    using assms
    by (simp add: populate_def country_specific_def additional_holidays_def block_valid
        good_friday_valid[OF e(1,2)] easter_monday_valid[OF e(1,3)] special_entries_unfold
        split del: if_split cong: if_cong)
qed

section \<open>The claims\<close>

text \<open>
  C3: for every year from 1974 on that \<^verbatim>\<open>date\<close> accepts, with observed true and any
  declared subdivision: when January 1 is a Saturday exactly one entry
  "New Year's Day (Observed)" is inserted, on January 3 (two days later); when it is a
  Sunday exactly one is inserted, on January 2 (one day later); when it is a weekday none
  is inserted.
\<close>

theorem new_years_day_observed_shift:
  assumes "1974 \<le> year" "year \<le> 9999" "subdiv \<in> set subdivisions"
  shows "\<exists>s d1. populate iom year subdiv True [] = Inr s \<and> date year JAN 1 = Inr d1 \<and>
     date year JAN 2 = Inr (d1 + 1) \<and> date year JAN 3 = Inr (d1 + 2) \<and>
     entries_named ''New Year's Day (Observed)'' s =
       (if weekday d1 = SAT then [(d1 + 2, ''New Year's Day (Observed)'')]
        else if weekday d1 = SUN then [(d1 + 1, ''New Year's Day (Observed)'')]
        else [])"
proof -
  have y: "1 \<le> year" using assms(1) by simp
  from new_years_day_entries[OF y assms(2) subdivisions_not_isle_of_man[OF assms(3)],
      of iom True]
  obtain s where s: "populate iom year subdiv True [] = Inr s"
    and n: "entries_named ''New Year's Day (Observed)'' s =
       (if 1974 \<le> year then
         (if True \<and> weekday (ymd2ord year 1 1) = 6
          then [(ymd2ord year 1 2, ''New Year's Day (Observed)'')]
          else if True \<and> weekday (ymd2ord year 1 1) = 5
          then [(ymd2ord year 1 3, ''New Year's Day (Observed)'')]
          else [])
       else [])" by blast
  have d: "date year JAN 1 = Inr (ymd2ord year 1 1)" "date year JAN 2 = Inr (ymd2ord year 1 1 + 1)"
    "date year JAN 3 = Inr (ymd2ord year 1 1 + 2)"
    using y assms(2) by (simp_all add: date_Inr JAN_def days_in_month_numeral ymd2ord_def)
  have "entries_named ''New Year's Day (Observed)'' s =
       (if weekday (ymd2ord year 1 1) = SAT
        then [(ymd2ord year 1 1 + 2, ''New Year's Day (Observed)'')]
        else if weekday (ymd2ord year 1 1) = SUN
        then [(ymd2ord year 1 1 + 1, ''New Year's Day (Observed)'')]
        else [])"
    using assms(1) by (simp add: n SAT_def SUN_def ymd2ord_def)
  with s d show ?thesis by blast
qed

theorem new_years_day_observed_shift_witness:
  "\<exists>s d1. populate (\<lambda>y s. Inr s) 2022 ''UK'' True [] = Inr s \<and> date 2022 JAN 1 = Inr d1 \<and>
     weekday d1 = SAT \<and> date 2022 JAN 3 = Inr (d1 + 2) \<and>
     entries_named ''New Year's Day (Observed)'' s = [(d1 + 2, ''New Year's Day (Observed)'')]"
  using new_years_day_observed_shift[of 2022 "''UK''" "\<lambda>y s. Inr s"]
  by (simp add: subdivisions_def date_def JAN_def MINYEAR_def MAXYEAR_def days_in_month_numeral
      ymd2ord_def days_before_year_def days_before_month_numeral weekday_def SAT_def)

text \<open>
  C10: for every declared subdivision and either observed setting, in a year that
  \<^verbatim>\<open>date\<close> accepts, a "New Year's Day" entry is inserted (once, on January 1) if
  and only if the year is 1974 or later; before 1974 neither it nor its observed variant
  is inserted.
\<close>

theorem new_years_day_from_1974:
  assumes "1 \<le> year" "year \<le> 9999" "subdiv \<in> set subdivisions"
  shows "\<exists>s. populate iom year subdiv observed [] = Inr s \<and>
     ((\<exists>d. (d, ''New Year's Day'') \<in> set s) \<longleftrightarrow> 1974 \<le> year) \<and>
     (1974 \<le> year \<longrightarrow>
        (\<exists>d. date year JAN 1 = Inr d \<and> entries_named ''New Year's Day'' s = [(d, ''New Year's Day'')])) \<and>
     (year < 1974 \<longrightarrow>
        entries_named ''New Year's Day'' s = [] \<and>
        entries_named ''New Year's Day (Observed)'' s = [])"
proof -
  from new_years_day_entries[OF assms(1,2) subdivisions_not_isle_of_man[OF assms(3)], of iom observed]
  obtain s where s: "populate iom year subdiv observed [] = Inr s"
    and n: "entries_named ''New Year's Day'' s =
       (if 1974 \<le> year then [(ymd2ord year 1 1, ''New Year's Day'')] else [])"
    and o: "entries_named ''New Year's Day (Observed)'' s =
       (if 1974 \<le> year then
         (if observed \<and> weekday (ymd2ord year 1 1) = 6
          then [(ymd2ord year 1 2, ''New Year's Day (Observed)'')]
          else if observed \<and> weekday (ymd2ord year 1 1) = 5
          then [(ymd2ord year 1 3, ''New Year's Day (Observed)'')]
          else [])
       else [])" by blast
  have d: "date year JAN 1 = Inr (ymd2ord year 1 1)"
    using assms(1,2) by (simp add: date_Inr JAN_def days_in_month_numeral)
  have mem: "(\<exists>d. (d, ''New Year's Day'') \<in> set s) \<longleftrightarrow> entries_named ''New Year's Day'' s \<noteq> []"
    by (force simp: entries_named_def filter_empty_conv)
  show ?thesis using s d n o mem by auto
qed

theorem new_years_day_from_1974_witness:
  "(\<exists>s. populate (\<lambda>y s. Inr s) 1973 ''Wales'' True [] = Inr s \<and>
      \<not> (\<exists>d. (d, ''New Year's Day'') \<in> set s) \<and>
      entries_named ''New Year's Day (Observed)'' s = []) \<and>
   (\<exists>s d. populate (\<lambda>y s. Inr s) 1974 ''Wales'' True [] = Inr s \<and>
      date 1974 JAN 1 = Inr d \<and> entries_named ''New Year's Day'' s = [(d, ''New Year's Day'')])"
proof -
  have "\<exists>s. populate (\<lambda>y s. Inr s) 1973 ''Wales'' True [] = Inr s \<and>
      \<not> (\<exists>d. (d, ''New Year's Day'') \<in> set s) \<and>
      entries_named ''New Year's Day (Observed)'' s = []"
    using new_years_day_from_1974[of 1973 "''Wales''" "\<lambda>y s. Inr s" True]
    by (simp add: subdivisions_def) blast
  moreover have "\<exists>s d. populate (\<lambda>y s. Inr s) 1974 ''Wales'' True [] = Inr s \<and>
      date 1974 JAN 1 = Inr d \<and> entries_named ''New Year's Day'' s = [(d, ''New Year's Day'')]"
    using new_years_day_from_1974[of 1974 "''Wales''" "\<lambda>y s. Inr s" True]
    by (simp add: subdivisions_def) blast
  ultimately show ?thesis by blast
qed

lemma weekday_backward_monday: "weekday (d - weekday d) = 0"
  unfolding weekday_def by presburger

lemma weekday_forward_monday: "weekday (d + (- weekday d) mod 7) = 0"
  unfolding weekday_def by presburger

lemma ymd2ord_add: "ymd2ord y m (d + n) = ymd2ord y m d + n"
  by (simp add: ymd2ord_def)

lemma ymd2ord_diff: "ymd2ord y m (d - n) = ymd2ord y m d - n"
  by (simp add: ymd2ord_def)

lemma spring_bank_holiday_entries:
  assumes "1 \<le> year" "year \<le> 9999" "subdiv \<noteq> ''Isle of Man''"
  shows "\<exists>s. populate iom year subdiv observed [] = Inr s \<and>
     entries_named ''Spring Bank Holiday'' s =
      (if year = 2012 then [(ymd2ord year 6 4, ''Spring Bank Holiday'')]
       else if year = 2022 then [(ymd2ord year 6 2, ''Spring Bank Holiday'')]
       else if 1971 \<le> year then
         [(ymd2ord year 5 (31 - weekday (ymd2ord year 5 31)), ''Spring Bank Holiday'')]
       else [])"
proof -
  from easter_valid[OF assms(1,2)] obtain e where e: "easter year = Inr e"
    "radd e 0 (FR (- 1)) = Inr (e - 2)" "radd e 0 (MO 1) = Inr (e + 1)" by blast
  show ?thesis
    using assms
    by (simp add: populate_def country_specific_def additional_holidays_def block_valid
        good_friday_valid[OF e(1,2)] easter_monday_valid[OF e(1,3)] special_entries_unfold
        split del: if_split cong: if_cong)
qed

text \<open>
  C6: for every declared subdivision, in a year that \<^verbatim>\<open>date\<close> accepts, the
  "Spring Bank Holiday" entry is inserted once: on June 4 in 2012, on June 2 in 2022, on
  the last Monday of May (the Monday among May 25 to 31) in every other year from 1971
  on; before 1971 it is not inserted.
\<close>

theorem spring_bank_holiday_date:
  assumes "1 \<le> year" "year \<le> 9999" "subdiv \<in> set subdivisions"
  shows "\<exists>s. populate iom year subdiv observed [] = Inr s \<and>
     (year = 2012 \<longrightarrow>
        (\<exists>d. date year JUN 4 = Inr d \<and>
           entries_named ''Spring Bank Holiday'' s = [(d, ''Spring Bank Holiday'')])) \<and>
     (year = 2022 \<longrightarrow>
        (\<exists>d. date year JUN 2 = Inr d \<and>
           entries_named ''Spring Bank Holiday'' s = [(d, ''Spring Bank Holiday'')])) \<and>
     (1971 \<le> year \<and> year \<noteq> 2012 \<and> year \<noteq> 2022 \<longrightarrow>
        (\<exists>k d. 25 \<le> k \<and> k \<le> 31 \<and> date year MAY k = Inr d \<and> weekday d = MON \<and>
           entries_named ''Spring Bank Holiday'' s = [(d, ''Spring Bank Holiday'')])) \<and>
     (year < 1971 \<longrightarrow> entries_named ''Spring Bank Holiday'' s = [])"
proof -
  from spring_bank_holiday_entries[OF assms(1,2) subdivisions_not_isle_of_man[OF assms(3)],
      of iom observed]
  obtain s where s: "populate iom year subdiv observed [] = Inr s"
    and n: "entries_named ''Spring Bank Holiday'' s =
      (if year = 2012 then [(ymd2ord year 6 4, ''Spring Bank Holiday'')]
       else if year = 2022 then [(ymd2ord year 6 2, ''Spring Bank Holiday'')]
       else if 1971 \<le> year then
         [(ymd2ord year 5 (31 - weekday (ymd2ord year 5 31)), ''Spring Bank Holiday'')]
       else [])" by blast
  have j: "date year JUN 4 = Inr (ymd2ord year 6 4)" "date year JUN 2 = Inr (ymd2ord year 6 2)"
    using assms(1,2) by (simp_all add: date_Inr JUN_def days_in_month_numeral)
  define k where "k = 31 - weekday (ymd2ord year 5 31)"
  have k: "25 \<le> k" "k \<le> 31" using weekday_range[of "ymd2ord year 5 31"] by (simp_all add: k_def)
  have dk: "date year MAY k = Inr (ymd2ord year 5 k)"
    using assms(1,2) k by (simp add: date_Inr MAY_def days_in_month_numeral)
  have wk: "weekday (ymd2ord year 5 k) = MON"
    by (simp add: k_def ymd2ord_diff weekday_backward_monday MON_def)
  have last: "\<exists>k d. 25 \<le> k \<and> k \<le> 31 \<and> date year MAY k = Inr d \<and> weekday d = MON \<and>
           entries_named ''Spring Bank Holiday'' s = [(d, ''Spring Bank Holiday'')]"
    if "1971 \<le> year" "year \<noteq> 2012" "year \<noteq> 2022"
    using that k dk wk n unfolding k_def[symmetric] by auto
  show ?thesis using s j n last by auto
qed

theorem spring_bank_holiday_date_witness:
  "(\<exists>s d. populate (\<lambda>y s. Inr s) 2012 ''England'' True [] = Inr s \<and> date 2012 JUN 4 = Inr d \<and>
      entries_named ''Spring Bank Holiday'' s = [(d, ''Spring Bank Holiday'')]) \<and>
   (\<exists>s d. populate (\<lambda>y s. Inr s) 2022 ''England'' True [] = Inr s \<and> date 2022 JUN 2 = Inr d \<and>
      entries_named ''Spring Bank Holiday'' s = [(d, ''Spring Bank Holiday'')]) \<and>
   (\<exists>s k d. populate (\<lambda>y s. Inr s) 2023 ''England'' True [] = Inr s \<and> 25 \<le> k \<and> k \<le> 31 \<and>
      date 2023 MAY k = Inr d \<and> weekday d = MON \<and>
      entries_named ''Spring Bank Holiday'' s = [(d, ''Spring Bank Holiday'')]) \<and>
   (\<exists>s. populate (\<lambda>y s. Inr s) 1970 ''England'' True [] = Inr s \<and>
      entries_named ''Spring Bank Holiday'' s = [])"
proof -
  have "\<exists>s d. populate (\<lambda>y s. Inr s) 2012 ''England'' True [] = Inr s \<and> date 2012 JUN 4 = Inr d \<and>
      entries_named ''Spring Bank Holiday'' s = [(d, ''Spring Bank Holiday'')]"
    using spring_bank_holiday_date[of 2012 "''England''" "\<lambda>y s. Inr s" True]
    by (simp add: subdivisions_def; blast)
  moreover have "\<exists>s d. populate (\<lambda>y s. Inr s) 2022 ''England'' True [] = Inr s \<and>
      date 2022 JUN 2 = Inr d \<and>
      entries_named ''Spring Bank Holiday'' s = [(d, ''Spring Bank Holiday'')]"
    using spring_bank_holiday_date[of 2022 "''England''" "\<lambda>y s. Inr s" True]
    by (simp add: subdivisions_def; blast)
  moreover have "\<exists>s k d. populate (\<lambda>y s. Inr s) 2023 ''England'' True [] = Inr s \<and>
      25 \<le> k \<and> k \<le> 31 \<and> date 2023 MAY k = Inr d \<and> weekday d = MON \<and>
      entries_named ''Spring Bank Holiday'' s = [(d, ''Spring Bank Holiday'')]"
    using spring_bank_holiday_date[of 2023 "''England''" "\<lambda>y s. Inr s" True]
    by (simp add: subdivisions_def; blast)
  moreover have "\<exists>s. populate (\<lambda>y s. Inr s) 1970 ''England'' True [] = Inr s \<and>
      entries_named ''Spring Bank Holiday'' s = []"
    using spring_bank_holiday_date[of 1970 "''England''" "\<lambda>y s. Inr s" True]
    by (simp add: subdivisions_def)
  ultimately show ?thesis by blast
qed

lemma entries_starting_simps [simp]:
  "entries_starting p [] = []"
  "entries_starting p (e # es) =
     (if take (length p) (snd e) = p then e # entries_starting p es else entries_starting p es)"
  "entries_starting p (xs @ ys) = entries_starting p xs @ entries_starting p ys"
  "entries_starting p (if c then xs else ys) =
     (if c then entries_starting p xs else entries_starting p ys)"
  by (simp_all add: entries_starting_def)

lemma summer_bank_holiday_entries:
  assumes "1 \<le> year" "year \<le> 9999" "subdiv \<noteq> ''Isle of Man''"
  shows "\<exists>s. populate iom year subdiv observed [] = Inr s \<and>
     entries_starting ''Summer Bank Holiday'' s =
      (if subdiv = ''UK'' \<or> subdiv = ''Scotland'' then
         [(ymd2ord year 8 (1 + (- weekday (ymd2ord year 8 1)) mod 7),
            ''Summer Bank Holiday'' @ (if subdiv = ''UK'' then '' [Scotland]'' else []))]
       else [])"
proof -
  from easter_valid[OF assms(1,2)] obtain e where e: "easter year = Inr e"
    "radd e 0 (FR (- 1)) = Inr (e - 2)" "radd e 0 (MO 1) = Inr (e + 1)" by blast
  show ?thesis
    using assms
    by (simp add: populate_def country_specific_def additional_holidays_def block_valid
        good_friday_valid[OF e(1,2)] easter_monday_valid[OF e(1,3)] special_entries_unfold
        split del: if_split cong: if_cong)
qed

text \<open>
  C8: for every year that \<^verbatim>\<open>date\<close> accepts, with subdivision "UK" or "Scotland",
  the "Summer Bank Holiday" entry (named "Summer Bank Holiday [Scotland]" for "UK") is
  inserted once, on the first Monday of August: the Monday among August 1 to 7, which is
  August 1 itself when August 1 is a Monday.
\<close>

theorem summer_bank_holiday_first_monday:
  assumes "1 \<le> year" "year \<le> 9999" "subdiv = ''UK'' \<or> subdiv = ''Scotland''"
  shows "\<exists>s k d. populate iom year subdiv observed [] = Inr s \<and>
     1 \<le> k \<and> k \<le> 7 \<and> date year AUG k = Inr d \<and> weekday d = MON \<and>
     entries_starting ''Summer Bank Holiday'' s =
       [(d, ''Summer Bank Holiday'' @ (if subdiv = ''UK'' then '' [Scotland]'' else []))] \<and>
     (\<forall>d1. date year AUG 1 = Inr d1 \<and> weekday d1 = MON \<longrightarrow> d = d1 \<and> k = 1)"
proof -
  have iom: "subdiv \<noteq> ''Isle of Man''" using assms(3) by auto
  define k where "k = 1 + (- weekday (ymd2ord year 8 1)) mod 7"
  from summer_bank_holiday_entries[OF assms(1,2) iom, of iom observed]
  obtain s where s: "populate iom year subdiv observed [] = Inr s"
    and n: "entries_starting ''Summer Bank Holiday'' s =
         [(ymd2ord year 8 k,
            ''Summer Bank Holiday'' @ (if subdiv = ''UK'' then '' [Scotland]'' else []))]"
    using assms(3) unfolding k_def by auto
  have k: "1 \<le> k" "k \<le> 7"
    using pos_mod_bound[of 7 "- weekday (ymd2ord year 8 1)"]
      pos_mod_sign[of 7 "- weekday (ymd2ord year 8 1)"] by (simp_all add: k_def)
  have dk: "date year AUG k = Inr (ymd2ord year 8 k)"
    using assms(1,2) k by (simp add: date_Inr AUG_def days_in_month_numeral)
  have wk: "weekday (ymd2ord year 8 k) = MON"
    by (simp add: k_def ymd2ord_add weekday_forward_monday MON_def)
  have d1: "date year AUG 1 = Inr (ymd2ord year 8 1)"
    using assms(1,2) by (simp add: date_Inr AUG_def days_in_month_numeral)
  have first: "k = 1" if "weekday (ymd2ord year 8 1) = MON"
    using that by (simp add: k_def MON_def)
  show ?thesis using s k dk wk n d1 first by auto
qed

theorem summer_bank_holiday_first_monday_witness:
  "\<exists>s d. populate (\<lambda>y s. Inr s) 2022 ''Scotland'' True [] = Inr s \<and>
     date 2022 AUG 1 = Inr d \<and> weekday d = MON \<and>
     entries_starting ''Summer Bank Holiday'' s = [(d, ''Summer Bank Holiday'')]"
proof -
  have d: "date 2022 AUG 1 = Inr 738368" "weekday 738368 = MON"
    by (simp_all add: date_def AUG_def MINYEAR_def MAXYEAR_def days_in_month_numeral
        ymd2ord_def days_before_year_def days_before_month_numeral is_leap_def weekday_def MON_def)
  from summer_bank_holiday_first_monday[of 2022 "''Scotland''" "\<lambda>y s. Inr s" True]
  obtain s k d' where s: "populate (\<lambda>y s. Inr s) 2022 ''Scotland'' True [] = Inr s"
    and n: "entries_starting ''Summer Bank Holiday'' s = [(d', ''Summer Bank Holiday'')]"
    and f: "\<forall>d1. date 2022 AUG 1 = Inr d1 \<and> weekday d1 = MON \<longrightarrow> d' = d1 \<and> k = 1"
    by auto
  from f d have "d' = 738368" by blast
  with s n d show ?thesis by blast
qed

lemma easter_entries:
  assumes "1 \<le> year" "year \<le> 9999" "subdiv \<noteq> ''Isle of Man''"
  shows "\<exists>s e. populate iom year subdiv observed [] = Inr s \<and> easter year = Inr e \<and>
     weekday e = 6 \<and> ymd2ord year 3 22 \<le> e \<and> e \<le> ymd2ord year 4 25 \<and>
     entries_named ''Good Friday'' s = [(e - 2, ''Good Friday'')] \<and>
     entries_starting ''Easter Monday'' s =
      (if subdiv \<noteq> ''Scotland'' then
         [(e + 1, ''Easter Monday'' @
             (if subdiv = ''UK'' then '' [England/Wales/Northern Ireland]'' else []))]
       else [])"
proof -
  from easter_valid[OF assms(1,2)] obtain e where e: "easter year = Inr e"
    "radd e 0 (FR (- 1)) = Inr (e - 2)" "radd e 0 (MO 1) = Inr (e + 1)"
    and w: "weekday e = 6" "ymd2ord year 3 22 \<le> e" "e \<le> ymd2ord year 4 25" by blast
  have "\<exists>s. populate iom year subdiv observed [] = Inr s \<and>
     entries_named ''Good Friday'' s = [(e - 2, ''Good Friday'')] \<and>
     entries_starting ''Easter Monday'' s =
      (if subdiv \<noteq> ''Scotland'' then
         [(e + 1, ''Easter Monday'' @
             (if subdiv = ''UK'' then '' [England/Wales/Northern Ireland]'' else []))]
       else [])"
    using assms
    by (simp add: populate_def country_specific_def additional_holidays_def block_valid
        good_friday_valid[OF e(1,2)] easter_monday_valid[OF e(1,3)] special_entries_unfold
        split del: if_split cong: if_cong)
  with e(1) w show ?thesis by blast
qed

text \<open>
  C9: for every year that \<^verbatim>\<open>date\<close> accepts and every declared subdivision, Easter
  (\<^verbatim>\<open>dateutil.easter.easter\<close>, the Western computation) is a Sunday in March or
  April; "Good Friday" is inserted once, two days before it; "Easter Monday" (with its
  region suffix for "UK") is inserted once, one day after it, if and only if the
  subdivision is not "Scotland".
\<close>

theorem good_friday_easter_monday:
  assumes "1 \<le> year" "year \<le> 9999" "subdiv \<in> set subdivisions"
  shows "\<exists>s e. populate iom year subdiv observed [] = Inr s \<and> easter year = Inr e \<and>
     weekday e = SUN \<and>
     entries_named ''Good Friday'' s = [(e - 2, ''Good Friday'')] \<and> weekday (e - 2) = FRI \<and>
     (subdiv \<noteq> ''Scotland'' \<longrightarrow>
        entries_starting ''Easter Monday'' s =
          [(e + 1, ''Easter Monday'' @
             (if subdiv = ''UK'' then '' [England/Wales/Northern Ireland]'' else []))] \<and>
        weekday (e + 1) = MON) \<and>
     (subdiv = ''Scotland'' \<longrightarrow> entries_starting ''Easter Monday'' s = [])"
proof -
  from easter_entries[OF assms(1,2) subdivisions_not_isle_of_man[OF assms(3)], of iom observed]
  obtain s e where s: "populate iom year subdiv observed [] = Inr s" "easter year = Inr e"
    and w: "weekday e = 6"
    and g: "entries_named ''Good Friday'' s = [(e - 2, ''Good Friday'')]"
    and m: "entries_starting ''Easter Monday'' s =
      (if subdiv \<noteq> ''Scotland'' then
         [(e + 1, ''Easter Monday'' @
             (if subdiv = ''UK'' then '' [England/Wales/Northern Ireland]'' else []))]
       else [])" by blast
  have "weekday (e - 2) = 4" "weekday (e + 1) = 0"
    using w unfolding weekday_def by presburger+
  then show ?thesis using s w g m by (auto simp: SUN_def FRI_def MON_def)
qed

theorem good_friday_easter_monday_witness:
  "(\<exists>s e. populate (\<lambda>y s. Inr s) 2022 ''England'' True [] = Inr s \<and> easter 2022 = Inr e \<and>
      date 2022 APR 17 = Inr e \<and>
      entries_named ''Good Friday'' s = [(e - 2, ''Good Friday'')] \<and>
      entries_starting ''Easter Monday'' s = [(e + 1, ''Easter Monday'')]) \<and>
   (\<exists>s e. populate (\<lambda>y s. Inr s) 2022 ''Scotland'' True [] = Inr s \<and> easter 2022 = Inr e \<and>
      entries_named ''Good Friday'' s = [(e - 2, ''Good Friday'')] \<and>
      entries_starting ''Easter Monday'' s = [])"
proof -
  have e: "easter 2022 = Inr 738262" "date 2022 APR 17 = Inr 738262"
    by code_simp+
  have "\<exists>s e. populate (\<lambda>y s. Inr s) 2022 ''England'' True [] = Inr s \<and> easter 2022 = Inr e \<and>
      date 2022 APR 17 = Inr e \<and>
      entries_named ''Good Friday'' s = [(e - 2, ''Good Friday'')] \<and>
      entries_starting ''Easter Monday'' s = [(e + 1, ''Easter Monday'')]"
    using good_friday_easter_monday[of 2022 "''England''" "\<lambda>y s. Inr s" True] e
    by (simp add: subdivisions_def; blast)
  moreover have "\<exists>s e. populate (\<lambda>y s. Inr s) 2022 ''Scotland'' True [] = Inr s \<and>
      easter 2022 = Inr e \<and>
      entries_named ''Good Friday'' s = [(e - 2, ''Good Friday'')] \<and>
      entries_starting ''Easter Monday'' s = []"
    using good_friday_easter_monday[of 2022 "''Scotland''" "\<lambda>y s. Inr s" True]
    by (simp add: subdivisions_def; blast)
  ultimately show ?thesis by blast
qed

lemma new_year_holiday_entries:
  assumes "1 \<le> year" "year \<le> 9999" "subdiv \<noteq> ''Isle of Man''"
  shows "\<exists>s. populate iom year subdiv observed [] = Inr s \<and>
     entries_starting ''New Year Holiday'' s =
      (if subdiv = ''UK'' \<or> subdiv = ''Scotland'' then
         (ymd2ord year 1 2,
            ''New Year Holiday'' @ (if subdiv = ''UK'' then '' [Scotland]'' else [])) #
         (if observed \<and> (weekday (ymd2ord year 1 2) = 5 \<or> weekday (ymd2ord year 1 2) = 6)
          then [(ymd2ord year 1 4,
            ''New Year Holiday'' @ (if subdiv = ''UK'' then '' [Scotland]'' else [])
               @ '' (Observed)'')]
          else if observed \<and> weekday (ymd2ord year 1 2) = 0
          then [(ymd2ord year 1 3,
            ''New Year Holiday'' @ (if subdiv = ''UK'' then '' [Scotland]'' else [])
               @ '' (Observed)'')]
          else [])
       else [])"
proof -
  from easter_valid[OF assms(1,2)] obtain e where e: "easter year = Inr e"
    "radd e 0 (FR (- 1)) = Inr (e - 2)" "radd e 0 (MO 1) = Inr (e + 1)" by blast
  show ?thesis
    using assms
    by (simp add: populate_def country_specific_def additional_holidays_def block_valid
        good_friday_valid[OF e(1,2)] easter_monday_valid[OF e(1,3)] special_entries_unfold
        split del: if_split cong: if_cong)
qed

text \<open>
  C2, as the program has it: for every year that \<^verbatim>\<open>date\<close> accepts, with
  subdivision "UK" or "Scotland" and observed true, the entries of the "New Year Holiday"
  rule are the holiday itself on January 2 and at most one "(Observed)" substitute: on
  January 4 (two days later) when January 2 is a Saturday or a Sunday, on January 3 (one
  day later) when January 2 is a Monday, and none otherwise. The substitute is a Monday
  when January 2 is a Saturday and a Tuesday in the other two cases.
\<close>

theorem new_year_holiday_substitute:
  assumes "1 \<le> year" "year \<le> 9999" "subdiv = ''UK'' \<or> subdiv = ''Scotland''"
  shows "\<exists>s d2 name. populate iom year subdiv True [] = Inr s \<and> date year JAN 2 = Inr d2 \<and>
     name = ''New Year Holiday'' @ (if subdiv = ''UK'' then '' [Scotland]'' else []) \<and>
     date year JAN 3 = Inr (d2 + 1) \<and> date year JAN 4 = Inr (d2 + 2) \<and>
     entries_starting ''New Year Holiday'' s =
       (d2, name) #
       (if weekday d2 = SAT \<or> weekday d2 = SUN then [(d2 + 2, name @ '' (Observed)'')]
        else if weekday d2 = MON then [(d2 + 1, name @ '' (Observed)'')]
        else []) \<and>
     (weekday d2 = SAT \<longrightarrow> weekday (d2 + 2) = MON) \<and>
     (weekday d2 = SUN \<longrightarrow> weekday (d2 + 2) = TUE) \<and>
     (weekday d2 = MON \<longrightarrow> weekday (d2 + 1) = TUE)"
proof -
  have iom: "subdiv \<noteq> ''Isle of Man''" using assms(3) by auto
  define name where "name = ''New Year Holiday'' @ (if subdiv = ''UK'' then '' [Scotland]'' else [])"
  from new_year_holiday_entries[OF assms(1,2) iom, of iom True]
  obtain s where s: "populate iom year subdiv True [] = Inr s"
    and n: "entries_starting ''New Year Holiday'' s =
         (ymd2ord year 1 2, name) #
         (if weekday (ymd2ord year 1 2) = 5 \<or> weekday (ymd2ord year 1 2) = 6
          then [(ymd2ord year 1 4, name @ '' (Observed)'')]
          else if weekday (ymd2ord year 1 2) = 0
          then [(ymd2ord year 1 3, name @ '' (Observed)'')]
          else [])"
    using assms(3) unfolding name_def by auto
  have d: "date year JAN 2 = Inr (ymd2ord year 1 2)"
    "date year JAN 3 = Inr (ymd2ord year 1 2 + 1)" "date year JAN 4 = Inr (ymd2ord year 1 2 + 2)"
    using assms(1,2) by (simp_all add: date_Inr JAN_def days_in_month_numeral ymd2ord_def)
  have e: "ymd2ord year 1 4 = ymd2ord year 1 2 + 2" "ymd2ord year 1 3 = ymd2ord year 1 2 + 1"
    by (simp_all add: ymd2ord_def)
  have w: "weekday d2 = 5 \<longrightarrow> weekday (d2 + 2) = 0" "weekday d2 = 6 \<longrightarrow> weekday (d2 + 2) = 1"
    "weekday d2 = 0 \<longrightarrow> weekday (d2 + 1) = 1" for d2
    unfolding weekday_def by presburger+
  have n': "entries_starting ''New Year Holiday'' s =
       (ymd2ord year 1 2, name) #
       (if weekday (ymd2ord year 1 2) = SAT \<or> weekday (ymd2ord year 1 2) = SUN
        then [(ymd2ord year 1 2 + 2, name @ '' (Observed)'')]
        else if weekday (ymd2ord year 1 2) = MON
        then [(ymd2ord year 1 2 + 1, name @ '' (Observed)'')]
        else [])"
    unfolding n e by (simp add: weekday_defs)
  show ?thesis
    apply (rule exI[of _ s], rule exI[of _ "ymd2ord year 1 2"], rule exI[of _ name])
    using s d w[of "ymd2ord year 1 2"] n' by (simp add: weekday_defs name_def)
qed

theorem new_year_holiday_substitute_witness:
  "\<exists>s d2. populate (\<lambda>y s. Inr s) 2022 ''UK'' True [] = Inr s \<and> date 2022 JAN 2 = Inr d2 \<and>
     weekday d2 = SUN \<and> weekday (d2 + 2) = TUE \<and> date 2022 JAN 4 = Inr (d2 + 2) \<and>
     entries_starting ''New Year Holiday'' s =
       [(d2, ''New Year Holiday [Scotland]''),
        (d2 + 2, ''New Year Holiday [Scotland] (Observed)'')]"
proof -
  have d: "date 2022 JAN 2 = Inr 738157" "weekday 738157 = SUN"
    by (simp_all add: date_def JAN_def MINYEAR_def MAXYEAR_def days_in_month_numeral
        ymd2ord_def days_before_year_def days_before_month_numeral weekday_def SUN_def)
  show ?thesis
    using new_year_holiday_substitute[of 2022 "''UK''" "\<lambda>y s. Inr s"] d
    by (simp add: weekday_defs; blast)
qed

text \<open>
  C2 as stated fails: in 2022 January 2 is a Sunday, and for "Scotland" the substitute of
  the "New Year Holiday" is on January 4, which is a Tuesday and not a Monday.
\<close>

theorem new_year_holiday_substitute_counterexample:
  "date 2022 JAN 2 = Inr 738157 \<and> weekday 738157 = SUN \<and>
   date 2022 JAN 4 = Inr 738159 \<and> weekday 738159 = TUE \<and> weekday 738159 \<noteq> MON \<and>
   map_sum id (entries_named ''New Year Holiday (Observed)'')
     (populate (\<lambda>y s. Inr s) 2022 ''Scotland'' True []) =
   Inr [(738159, ''New Year Holiday (Observed)'')]"
proof -
  have "populate (\<lambda>y s. Inr s) 2022 ''Scotland'' True [] =
    Inr [(738309, ''Platinum Jubilee of Elizabeth II''),
         (738417, ''State Funeral of Queen Elizabeth II''),
         (738156, ''New Year's Day''), (738158, ''New Year's Day (Observed)''),
         (738157, ''New Year Holiday''), (738159, ''New Year Holiday (Observed)''),
         (738368, ''Summer Bank Holiday''), (738489, ''St. Andrew's Day''),
         (738514, ''Christmas Day''), (738516, ''Christmas Day (Observed)''),
         (738260, ''Good Friday''), (738277, ''May Day''), (738308, ''Spring Bank Holiday''),
         (738515, ''Boxing Day'')]"
    by code_simp
  moreover have "date 2022 JAN 2 = Inr 738157" "date 2022 JAN 4 = Inr 738159"
    "weekday 738157 = SUN" "weekday 738159 = TUE" "weekday 738159 \<noteq> MON"
    by code_simp+
  ultimately show ?thesis by simp
qed

lemma uk_2022_populate:
  "populate iom 2022 ''UK'' True [] =
    Inr [(738309, ''Platinum Jubilee of Elizabeth II''),
         (738417, ''State Funeral of Queen Elizabeth II''),
         (738156, ''New Year's Day''), (738158, ''New Year's Day (Observed)''),
         (738157, ''New Year Holiday [Scotland]''),
         (738159, ''New Year Holiday [Scotland] (Observed)''),
         (738231, ''St. Patrick's Day [Northern Ireland]''),
         (738348, ''Battle of the Boyne [Northern Ireland]''),
         (738368, ''Summer Bank Holiday [Scotland]''),
         (738489, ''St. Andrew's Day [Scotland]''),
         (738514, ''Christmas Day''), (738516, ''Christmas Day (Observed)''),
         (738260, ''Good Friday''),
         (738263, ''Easter Monday [England/Wales/Northern Ireland]''),
         (738277, ''May Day''), (738308, ''Spring Bank Holiday''),
         (738396, ''Late Summer Bank Holiday [England/Wales/Northern Ireland]''),
         (738515, ''Boxing Day'')]"
  by code_simp

text \<open>
  C1: for 2022 with subdivision "UK" and observed true, the dictionary holds
  "Platinum Jubilee of Elizabeth II" on 2022-06-03, "State Funeral of Queen Elizabeth II"
  on 2022-09-19, "Spring Bank Holiday" on 2022-06-02, "New Year's Day" on 2022-01-01 (a
  Saturday) and "New Year's Day (Observed)" on 2022-01-03. Each of these dates receives
  exactly one assignment, so the entry does not depend on how the dictionary resolves
  repeated assignments.
\<close>

theorem uk_2022_scenario:
  "\<exists>s j f b n v. populate iom 2022 ''UK'' True [] = Inr s \<and>
     date 2022 JUN 3 = Inr j \<and> get s j = Some ''Platinum Jubilee of Elizabeth II'' \<and>
     entries_on j s = [(j, ''Platinum Jubilee of Elizabeth II'')] \<and>
     date 2022 SEP 19 = Inr f \<and> get s f = Some ''State Funeral of Queen Elizabeth II'' \<and>
     entries_on f s = [(f, ''State Funeral of Queen Elizabeth II'')] \<and>
     date 2022 JUN 2 = Inr b \<and> get s b = Some ''Spring Bank Holiday'' \<and>
     entries_on b s = [(b, ''Spring Bank Holiday'')] \<and>
     date 2022 JAN 1 = Inr n \<and> weekday n = SAT \<and> get s n = Some ''New Year's Day'' \<and>
     entries_on n s = [(n, ''New Year's Day'')] \<and>
     date 2022 JAN 3 = Inr v \<and> get s v = Some ''New Year's Day (Observed)'' \<and>
     entries_on v s = [(v, ''New Year's Day (Observed)'')]"
proof -
  have d: "date 2022 JUN 3 = Inr 738309" "date 2022 SEP 19 = Inr 738417"
    "date 2022 JUN 2 = Inr 738308" "date 2022 JAN 1 = Inr 738156" "date 2022 JAN 3 = Inr 738158"
    "weekday 738156 = SAT"
    by code_simp+
  show ?thesis
    by (simp add: uk_2022_populate d get_def entries_on_def)
qed

lemma scotland_2020_populate:
  "populate iom 2020 ''Scotland'' observed [] =
    Inr ([(737425, ''New Year's Day''), (737426, ''New Year Holiday''),
          (737640, ''Summer Bank Holiday''), (737759, ''St. Andrew's Day''),
          (737784, ''Christmas Day''), (737525, ''Good Friday''),
          (737553, ''May Day''), (737570, ''Spring Bank Holiday''),
          (737785, ''Boxing Day'')] @
         (if observed then [(737787, ''Boxing Day (Observed)'')] else []))"
proof -
  have "populate iom 2020 ''Scotland'' True [] =
    Inr [(737425, ''New Year's Day''), (737426, ''New Year Holiday''),
          (737640, ''Summer Bank Holiday''), (737759, ''St. Andrew's Day''),
          (737784, ''Christmas Day''), (737525, ''Good Friday''),
          (737553, ''May Day''), (737570, ''Spring Bank Holiday''),
          (737785, ''Boxing Day''), (737787, ''Boxing Day (Observed)'')]"
    by code_simp
  moreover have "populate iom 2020 ''Scotland'' False [] =
    Inr [(737425, ''New Year's Day''), (737426, ''New Year Holiday''),
          (737640, ''Summer Bank Holiday''), (737759, ''St. Andrew's Day''),
          (737784, ''Christmas Day''), (737525, ''Good Friday''),
          (737553, ''May Day''), (737570, ''Spring Bank Holiday''),
          (737785, ''Boxing Day'')]"
    by code_simp
  ultimately show ?thesis by (cases observed) simp_all
qed

lemma late_summer_bank_holiday_entries:
  assumes "1 \<le> year" "year \<le> 9999" "subdiv \<noteq> ''Isle of Man''"
  shows "\<exists>s. populate iom year subdiv observed [] = Inr s \<and>
     entries_starting ''Late Summer Bank Holiday'' s =
      (if subdiv \<noteq> ''Scotland'' \<and> 1971 \<le> year then
         [(ymd2ord year 8 (31 - weekday (ymd2ord year 8 31)),
           ''Late Summer Bank Holiday'' @
             (if subdiv = ''UK'' then '' [England/Wales/Northern Ireland]'' else []))]
       else [])"
proof -
  from easter_valid[OF assms(1,2)] obtain e where e: "easter year = Inr e"
    "radd e 0 (FR (- 1)) = Inr (e - 2)" "radd e 0 (MO 1) = Inr (e + 1)" by blast
  show ?thesis
    using assms
    by (simp add: populate_def country_specific_def additional_holidays_def block_valid
        good_friday_valid[OF e(1,2)] easter_monday_valid[OF e(1,3)] special_entries_unfold
        split del: if_split cong: if_cong)
qed

text \<open>
  C7: for 2020 with subdivision "Scotland" (either observed setting), "May Day" is
  inserted once, on 2020-05-08, a date that receives no other assignment; and no entry
  whose name starts with "Late Summer Bank Holiday" is inserted, in 2020 or in any other
  year that \<^verbatim>\<open>date\<close> accepts.
\<close>

theorem scotland_2020_scenario:
  "(\<exists>s d. populate iom 2020 ''Scotland'' observed [] = Inr s \<and>
      date 2020 MAY 8 = Inr d \<and> entries_named ''May Day'' s = [(d, ''May Day'')] \<and>
      entries_on d s = [(d, ''May Day'')] \<and> get s d = Some ''May Day'' \<and>
      entries_starting ''Late Summer Bank Holiday'' s = []) \<and>
   (\<forall>year. 1 \<le> year \<and> year \<le> 9999 \<longrightarrow>
      (\<exists>s. populate iom year ''Scotland'' observed [] = Inr s \<and>
         entries_starting ''Late Summer Bank Holiday'' s = []))"
proof -
  have d: "date 2020 MAY 8 = Inr 737553" by code_simp
  have "\<exists>s d. populate iom 2020 ''Scotland'' observed [] = Inr s \<and>
      date 2020 MAY 8 = Inr d \<and> entries_named ''May Day'' s = [(d, ''May Day'')] \<and>
      entries_on d s = [(d, ''May Day'')] \<and> get s d = Some ''May Day'' \<and>
      entries_starting ''Late Summer Bank Holiday'' s = []"
    by (simp add: scotland_2020_populate d get_def entries_on_def)
  moreover have "\<exists>s. populate iom year ''Scotland'' observed [] = Inr s \<and>
         entries_starting ''Late Summer Bank Holiday'' s = []"
    if "1 \<le> year" "year \<le> 9999" for year
    using late_summer_bank_holiday_entries[OF that, of "''Scotland''" iom observed] by simp
  ultimately show ?thesis by blast
qed

theorem scotland_2020_scenario_witness:
  "\<exists>s. populate (\<lambda>y s. Inr s) 2021 ''Scotland'' True [] = Inr s \<and>
         entries_starting ''Late Summer Bank Holiday'' s = []"
  using scotland_2020_scenario[of "\<lambda>y s. Inr s" True] by simp

lemma entries_on_simps [simp]:
  "entries_on n [] = []"
  "entries_on n (e # es) = (if fst e = n then e # entries_on n es else entries_on n es)"
  "entries_on n (xs @ ys) = entries_on n xs @ entries_on n ys"
  "entries_on n (if c then xs else ys) = (if c then entries_on n xs else entries_on n ys)"
  by (simp_all add: entries_on_def)

lemmas ymd2ord_eval = ymd2ord_def days_before_year_def days_before_month_numeral is_leap_def
  weekday_def

lemma map_of_filter_key: "map_of (filter (\<lambda>e. fst e = d) xs) d = map_of xs d"
  by (induction xs) auto

lemma get_entries_on: "entries_on d s = [(d, n)] \<Longrightarrow> get s d = Some n"
proof -
  assume a: "entries_on d s = [(d, n)]"
  have "get s d = map_of (filter (\<lambda>e. fst e = d) (rev s)) d"
    by (simp add: get_def map_of_filter_key)
  also have "filter (\<lambda>e. fst e = d) (rev s) = rev (entries_on d s)"
    by (simp add: entries_on_def rev_filter)
  finally show ?thesis by (simp add: a)
qed

lemma special_named_entries:
  assumes "1 \<le> year" "year \<le> 9999" "subdiv \<noteq> ''Isle of Man''"
  shows "\<exists>s. populate iom year subdiv observed [] = Inr s \<and>
     entries_named ''Silver Jubilee of Elizabeth II'' s =
       (if year = 1977 then [(ymd2ord year 6 7, ''Silver Jubilee of Elizabeth II'')] else []) \<and>
     entries_named ''Wedding of Charles and Diana'' s =
       (if year = 1981 then [(ymd2ord year 7 29, ''Wedding of Charles and Diana'')] else []) \<and>
     entries_named ''Millennium Celebrations'' s =
       (if year = 1999 then [(ymd2ord year 12 31, ''Millennium Celebrations'')] else []) \<and>
     entries_named ''Golden Jubilee of Elizabeth II'' s =
       (if year = 2002 then [(ymd2ord year 6 3, ''Golden Jubilee of Elizabeth II'')] else []) \<and>
     entries_named ''Wedding of William and Catherine'' s =
       (if year = 2011 then [(ymd2ord year 4 29, ''Wedding of William and Catherine'')] else []) \<and>
     entries_named ''Diamond Jubilee of Elizabeth II'' s =
       (if year = 2012 then [(ymd2ord year 6 5, ''Diamond Jubilee of Elizabeth II'')] else []) \<and>
     entries_named ''Platinum Jubilee of Elizabeth II'' s =
       (if year = 2022 then [(ymd2ord year 6 3, ''Platinum Jubilee of Elizabeth II'')] else []) \<and>
     entries_named ''State Funeral of Queen Elizabeth II'' s =
       (if year = 2022 then [(ymd2ord year 9 19, ''State Funeral of Queen Elizabeth II'')] else []) \<and>
     entries_named ''Silver Jubilee of Elizabeth II (Observed)'' s = [] \<and>
     entries_named ''Wedding of Charles and Diana (Observed)'' s = [] \<and>
     entries_named ''Millennium Celebrations (Observed)'' s = [] \<and>
     entries_named ''Golden Jubilee of Elizabeth II (Observed)'' s = [] \<and>
     entries_named ''Wedding of William and Catherine (Observed)'' s = [] \<and>
     entries_named ''Diamond Jubilee of Elizabeth II (Observed)'' s = [] \<and>
     entries_named ''Platinum Jubilee of Elizabeth II (Observed)'' s = [] \<and>
     entries_named ''State Funeral of Queen Elizabeth II (Observed)'' s = []"
proof -
  from easter_valid[OF assms(1,2)] obtain e where e: "easter year = Inr e"
    "radd e 0 (FR (- 1)) = Inr (e - 2)" "radd e 0 (MO 1) = Inr (e + 1)" by blast
  show ?thesis
    using assms
    by (simp add: populate_def country_specific_def additional_holidays_def block_valid
        good_friday_valid[OF e(1,2)] easter_monday_valid[OF e(1,3)] special_entries_unfold
        split del: if_split cong: if_cong) simp_all
qed

lemma special_1977_on:
  assumes "subdiv \<noteq> ''Isle of Man''"
  shows "\<exists>s. populate iom 1977 subdiv observed [] = Inr s \<and>
     entries_on (ymd2ord 1977 6 7) s = [(ymd2ord 1977 6 7, ''Silver Jubilee of Elizabeth II'')]"
proof -
  from easter_valid[of 1977] obtain e where e: "easter 1977 = Inr e"
    "radd e 0 (FR (- 1)) = Inr (e - 2)" "radd e 0 (MO 1) = Inr (e + 1)"
    and w: "ymd2ord 1977 3 22 \<le> e" "e \<le> ymd2ord 1977 4 25" by auto
  show ?thesis
    using assms w
    by (simp add: populate_def country_specific_def additional_holidays_def
        block_valid[unfolded special_entries_unfold]
        good_friday_valid[OF e(1,2)] easter_monday_valid[OF e(1,3)]
        ymd2ord_eval
        split del: if_split cong: if_cong)
qed

lemma special_1981_on:
  assumes "subdiv \<noteq> ''Isle of Man''"
  shows "\<exists>s. populate iom 1981 subdiv observed [] = Inr s \<and>
     entries_on (ymd2ord 1981 7 29) s = [(ymd2ord 1981 7 29, ''Wedding of Charles and Diana'')]"
proof -
  from easter_valid[of 1981] obtain e where e: "easter 1981 = Inr e"
    "radd e 0 (FR (- 1)) = Inr (e - 2)" "radd e 0 (MO 1) = Inr (e + 1)"
    and w: "ymd2ord 1981 3 22 \<le> e" "e \<le> ymd2ord 1981 4 25" by auto
  show ?thesis
    using assms w
    by (simp add: populate_def country_specific_def additional_holidays_def
        block_valid[unfolded special_entries_unfold]
        good_friday_valid[OF e(1,2)] easter_monday_valid[OF e(1,3)]
        ymd2ord_eval
        split del: if_split cong: if_cong)
qed

lemma special_1999_on:
  assumes "subdiv \<noteq> ''Isle of Man''"
  shows "\<exists>s. populate iom 1999 subdiv observed [] = Inr s \<and>
     entries_on (ymd2ord 1999 12 31) s = [(ymd2ord 1999 12 31, ''Millennium Celebrations'')]"
proof -
  from easter_valid[of 1999] obtain e where e: "easter 1999 = Inr e"
    "radd e 0 (FR (- 1)) = Inr (e - 2)" "radd e 0 (MO 1) = Inr (e + 1)"
    and w: "ymd2ord 1999 3 22 \<le> e" "e \<le> ymd2ord 1999 4 25" by auto
  show ?thesis
    using assms w
    by (simp add: populate_def country_specific_def additional_holidays_def
        block_valid[unfolded special_entries_unfold]
        good_friday_valid[OF e(1,2)] easter_monday_valid[OF e(1,3)]
        ymd2ord_eval
        split del: if_split cong: if_cong)
qed

lemma special_2002_on:
  assumes "subdiv \<noteq> ''Isle of Man''"
  shows "\<exists>s. populate iom 2002 subdiv observed [] = Inr s \<and>
     entries_on (ymd2ord 2002 6 3) s = [(ymd2ord 2002 6 3, ''Golden Jubilee of Elizabeth II'')]"
proof -
  from easter_valid[of 2002] obtain e where e: "easter 2002 = Inr e"
    "radd e 0 (FR (- 1)) = Inr (e - 2)" "radd e 0 (MO 1) = Inr (e + 1)"
    and w: "ymd2ord 2002 3 22 \<le> e" "e \<le> ymd2ord 2002 4 25" by auto
  show ?thesis
    using assms w
    by (simp add: populate_def country_specific_def additional_holidays_def
        block_valid[unfolded special_entries_unfold]
        good_friday_valid[OF e(1,2)] easter_monday_valid[OF e(1,3)]
        ymd2ord_eval
        split del: if_split cong: if_cong)
qed

lemma special_2011_on:
  assumes "subdiv \<noteq> ''Isle of Man''"
  shows "\<exists>s. populate iom 2011 subdiv observed [] = Inr s \<and>
     entries_on (ymd2ord 2011 4 29) s = [(ymd2ord 2011 4 29, ''Wedding of William and Catherine'')]"
proof -
  from easter_valid[of 2011] obtain e where e: "easter 2011 = Inr e"
    "radd e 0 (FR (- 1)) = Inr (e - 2)" "radd e 0 (MO 1) = Inr (e + 1)"
    and w: "ymd2ord 2011 3 22 \<le> e" "e \<le> ymd2ord 2011 4 25" by auto
  show ?thesis
    using assms w
    by (simp add: populate_def country_specific_def additional_holidays_def
        block_valid[unfolded special_entries_unfold]
        good_friday_valid[OF e(1,2)] easter_monday_valid[OF e(1,3)]
        ymd2ord_eval
        split del: if_split cong: if_cong)
qed

lemma special_2012_on:
  assumes "subdiv \<noteq> ''Isle of Man''"
  shows "\<exists>s. populate iom 2012 subdiv observed [] = Inr s \<and>
     entries_on (ymd2ord 2012 6 5) s = [(ymd2ord 2012 6 5, ''Diamond Jubilee of Elizabeth II'')]"
proof -
  from easter_valid[of 2012] obtain e where e: "easter 2012 = Inr e"
    "radd e 0 (FR (- 1)) = Inr (e - 2)" "radd e 0 (MO 1) = Inr (e + 1)"
    and w: "ymd2ord 2012 3 22 \<le> e" "e \<le> ymd2ord 2012 4 25" by auto
  show ?thesis
    using assms w
    by (simp add: populate_def country_specific_def additional_holidays_def
        block_valid[unfolded special_entries_unfold]
        good_friday_valid[OF e(1,2)] easter_monday_valid[OF e(1,3)]
        ymd2ord_eval
        split del: if_split cong: if_cong)
qed

lemma special_2022_on:
  assumes "subdiv \<noteq> ''Isle of Man''"
  shows "\<exists>s. populate iom 2022 subdiv observed [] = Inr s \<and>
     entries_on (ymd2ord 2022 6 3) s = [(ymd2ord 2022 6 3, ''Platinum Jubilee of Elizabeth II'')] \<and>
     entries_on (ymd2ord 2022 9 19) s = [(ymd2ord 2022 9 19, ''State Funeral of Queen Elizabeth II'')]"
proof -
  from easter_valid[of 2022] obtain e where e: "easter 2022 = Inr e"
    "radd e 0 (FR (- 1)) = Inr (e - 2)" "radd e 0 (MO 1) = Inr (e + 1)"
    and w: "ymd2ord 2022 3 22 \<le> e" "e \<le> ymd2ord 2022 4 25" by auto
  show ?thesis
    using assms w
    by (simp add: populate_def country_specific_def additional_holidays_def
        block_valid[unfolded special_entries_unfold]
        good_friday_valid[OF e(1,2)] easter_monday_valid[OF e(1,3)]
        ymd2ord_eval
        split del: if_split cong: if_cong)
qed

text \<open>
  C5: for every year that \<^verbatim>\<open>date\<close> accepts, every declared subdivision and either
  observed setting, each special occasion declared for the year is in the result: its
  name is assigned exactly once, to its declared date, that date receives no other
  assignment (so the entry is there once all rule entries are merged), and no
  "(Observed)" variant of it is inserted; the special occasions declared for any other
  year are not inserted.
\<close>

theorem special_occasions:
  assumes "1 \<le> year" "year \<le> 9999" "subdiv \<in> set subdivisions"
  shows "\<exists>s. populate iom year subdiv observed [] = Inr s \<and>
     (\<forall>(month, day, name) \<in> set (case map_of special_holidays year of None \<Rightarrow> [] | Some l \<Rightarrow> l).
        \<exists>d. date year month day = Inr d \<and> entries_named name s = [(d, name)] \<and>
            entries_on d s = [(d, name)] \<and> get s d = Some name \<and>
            entries_named (name @ '' (Observed)'') s = []) \<and>
     (\<forall>(year', l) \<in> set special_holidays. year' \<noteq> year \<longrightarrow>
        (\<forall>(month, day, name) \<in> set l. entries_named name s = []))"
proof -
  have iom: "subdiv \<noteq> ''Isle of Man''" by (rule subdivisions_not_isle_of_man[OF assms(3)])
  from special_named_entries[OF assms(1,2) iom, of iom observed]
  obtain s where s: "populate iom year subdiv observed [] = Inr s"
    and n: "entries_named ''Silver Jubilee of Elizabeth II'' s =
       (if year = 1977 then [(ymd2ord year 6 7, ''Silver Jubilee of Elizabeth II'')] else [])"
     "entries_named ''Wedding of Charles and Diana'' s =
       (if year = 1981 then [(ymd2ord year 7 29, ''Wedding of Charles and Diana'')] else [])"
     "entries_named ''Millennium Celebrations'' s =
       (if year = 1999 then [(ymd2ord year 12 31, ''Millennium Celebrations'')] else [])"
     "entries_named ''Golden Jubilee of Elizabeth II'' s =
       (if year = 2002 then [(ymd2ord year 6 3, ''Golden Jubilee of Elizabeth II'')] else [])"
     "entries_named ''Wedding of William and Catherine'' s =
       (if year = 2011 then [(ymd2ord year 4 29, ''Wedding of William and Catherine'')] else [])"
     "entries_named ''Diamond Jubilee of Elizabeth II'' s =
       (if year = 2012 then [(ymd2ord year 6 5, ''Diamond Jubilee of Elizabeth II'')] else [])"
     "entries_named ''Platinum Jubilee of Elizabeth II'' s =
       (if year = 2022 then [(ymd2ord year 6 3, ''Platinum Jubilee of Elizabeth II'')] else [])"
     "entries_named ''State Funeral of Queen Elizabeth II'' s =
       (if year = 2022 then [(ymd2ord year 9 19, ''State Funeral of Queen Elizabeth II'')] else [])"
    and v: "entries_named ''Silver Jubilee of Elizabeth II (Observed)'' s = []"
     "entries_named ''Wedding of Charles and Diana (Observed)'' s = []"
     "entries_named ''Millennium Celebrations (Observed)'' s = []"
     "entries_named ''Golden Jubilee of Elizabeth II (Observed)'' s = []"
     "entries_named ''Wedding of William and Catherine (Observed)'' s = []"
     "entries_named ''Diamond Jubilee of Elizabeth II (Observed)'' s = []"
     "entries_named ''Platinum Jubilee of Elizabeth II (Observed)'' s = []"
     "entries_named ''State Funeral of Queen Elizabeth II (Observed)'' s = []"
    by blast
  have other: "\<forall>(year', l) \<in> set special_holidays. year' \<noteq> year \<longrightarrow>
        (\<forall>(month, day, name) \<in> set l. entries_named name s = [])"
    by (simp add: special_holidays_def n)
  have on: "entries_on (ymd2ord 1977 6 7) s = [(ymd2ord 1977 6 7, ''Silver Jubilee of Elizabeth II'')]"
    if "year = 1977"
    using special_1977_on[OF iom, of iom observed] s that by auto
  have on81: "entries_on (ymd2ord 1981 7 29) s = [(ymd2ord 1981 7 29, ''Wedding of Charles and Diana'')]"
    if "year = 1981"
    using special_1981_on[OF iom, of iom observed] s that by auto
  have on99: "entries_on (ymd2ord 1999 12 31) s = [(ymd2ord 1999 12 31, ''Millennium Celebrations'')]"
    if "year = 1999"
    using special_1999_on[OF iom, of iom observed] s that by auto
  have on02: "entries_on (ymd2ord 2002 6 3) s = [(ymd2ord 2002 6 3, ''Golden Jubilee of Elizabeth II'')]"
    if "year = 2002"
    using special_2002_on[OF iom, of iom observed] s that by auto
  have on11: "entries_on (ymd2ord 2011 4 29) s = [(ymd2ord 2011 4 29, ''Wedding of William and Catherine'')]"
    if "year = 2011"
    using special_2011_on[OF iom, of iom observed] s that by auto
  have on12: "entries_on (ymd2ord 2012 6 5) s = [(ymd2ord 2012 6 5, ''Diamond Jubilee of Elizabeth II'')]"
    if "year = 2012"
    using special_2012_on[OF iom, of iom observed] s that by auto
  have on22: "entries_on (ymd2ord 2022 6 3) s = [(ymd2ord 2022 6 3, ''Platinum Jubilee of Elizabeth II'')]"
     "entries_on (ymd2ord 2022 9 19) s = [(ymd2ord 2022 9 19, ''State Funeral of Queen Elizabeth II'')]"
    if "year = 2022"
    using special_2022_on[OF iom, of iom observed] s that by auto
  have declared: "\<forall>(month, day, name) \<in> set (case map_of special_holidays year of None \<Rightarrow> [] | Some l \<Rightarrow> l).
        \<exists>d. date year month day = Inr d \<and> entries_named name s = [(d, name)] \<and>
            entries_on d s = [(d, name)] \<and> get s d = Some name \<and>
            entries_named (name @ '' (Observed)'') s = []"
    using on on81 on99 on02 on11 on12 on22
    by (auto simp add: special_holidays_def month_defs date_Inr days_in_month_numeral n v
        get_entries_on)
  from s declared other show ?thesis by blast
qed

theorem special_occasions_witness:
  "\<exists>s j f. populate (\<lambda>y s. Inr s) 2022 ''Wales'' False [] = Inr s \<and>
     date 2022 JUN 3 = Inr j \<and> get s j = Some ''Platinum Jubilee of Elizabeth II'' \<and>
     date 2022 SEP 19 = Inr f \<and> get s f = Some ''State Funeral of Queen Elizabeth II'' \<and>
     entries_named ''Diamond Jubilee of Elizabeth II'' s = [] \<and>
     entries_named ''Silver Jubilee of Elizabeth II'' s = []"
proof -
  have d: "date 2022 JUN 3 = Inr 738309" "date 2022 SEP 19 = Inr 738417"
    by code_simp+
  from special_occasions[of 2022 "''Wales''" "\<lambda>y s. Inr s" False]
  obtain s where s: "populate (\<lambda>y s. Inr s) 2022 ''Wales'' False [] = Inr s"
    and a: "\<forall>(month, day, name) \<in> set (case map_of special_holidays 2022 of None \<Rightarrow> [] | Some l \<Rightarrow> l).
        \<exists>d. date 2022 month day = Inr d \<and> entries_named name s = [(d, name)] \<and>
            entries_on d s = [(d, name)] \<and> get s d = Some name \<and>
            entries_named (name @ '' (Observed)'') s = []"
    and b: "\<forall>(year', l) \<in> set special_holidays. year' \<noteq> 2022 \<longrightarrow>
        (\<forall>(month, day, name) \<in> set l. entries_named name s = [])"
    by (auto simp: subdivisions_def)
  from a d have "get s 738309 = Some ''Platinum Jubilee of Elizabeth II''"
    "get s 738417 = Some ''State Funeral of Queen Elizabeth II''"
    by (simp_all add: special_holidays_def month_defs)
  moreover from b have "entries_named ''Diamond Jubilee of Elizabeth II'' s = []"
    "entries_named ''Silver Jubilee of Elizabeth II'' s = []"
    by (simp_all add: special_holidays_def)
  ultimately show ?thesis using s d by simp
qed

subsection \<open>Regional results as views of the "UK" result\<close>

lemma region_view_simps [simp]:
  "region_view r [] = []"
  "region_view r ((d, n) # es) =
     (if applies_to r n then (d, undecorate n) # region_view r es else region_view r es)"
  "region_view r (xs @ ys) = region_view r xs @ region_view r ys"
  "region_view r (if c then xs else ys) = (if c then region_view r xs else region_view r ys)"
  by (simp_all add: region_view_def)

lemma list_all_if [simp]:
  "list_all P (if c then xs else ys) = (if c then list_all P xs else list_all P ys)"
  by simp

lemma regions_cases:
  "r \<in> set regions \<Longrightarrow>
     r = ''England'' \<or> r = ''Northern Ireland'' \<or> r = ''Scotland'' \<or> r = ''Wales''"
  by (simp add: regions_def)

lemma decorated_undecorate:
  "undecorate ''New Year Holiday [Scotland]'' = ''New Year Holiday''"
    "undecorate ''New Year Holiday [Scotland] (Observed)'' = ''New Year Holiday (Observed)''"
    "undecorate ''St. Patrick's Day [Northern Ireland]'' = ''St. Patrick's Day''"
    "undecorate ''St. Patrick's Day [Northern Ireland] (Observed)'' = ''St. Patrick's Day (Observed)''"
    "undecorate ''Battle of the Boyne [Northern Ireland]'' = ''Battle of the Boyne''"
    "undecorate ''Summer Bank Holiday [Scotland]'' = ''Summer Bank Holiday''"
    "undecorate ''St. Andrew's Day [Scotland]'' = ''St. Andrew's Day''"
    "undecorate ''Easter Monday [England/Wales/Northern Ireland]'' = ''Easter Monday''"
    "undecorate ''Late Summer Bank Holiday [England/Wales/Northern Ireland]'' = ''Late Summer Bank Holiday''"
   
  by code_simp+

lemma decorated_regions:
  "qualifier_regions ''New Year Holiday [Scotland]'' = [''Scotland'']"
    "qualifier_regions ''New Year Holiday [Scotland] (Observed)'' = [''Scotland'']"
    "qualifier_regions ''St. Patrick's Day [Northern Ireland]'' = [''Northern Ireland'']"
    "qualifier_regions ''St. Patrick's Day [Northern Ireland] (Observed)'' = [''Northern Ireland'']"
    "qualifier_regions ''Battle of the Boyne [Northern Ireland]'' = [''Northern Ireland'']"
    "qualifier_regions ''Summer Bank Holiday [Scotland]'' = [''Scotland'']"
    "qualifier_regions ''St. Andrew's Day [Scotland]'' = [''Scotland'']"
    "qualifier_regions ''Easter Monday [England/Wales/Northern Ireland]'' = [''England'', ''Wales'', ''Northern Ireland'']"
    "qualifier_regions ''Late Summer Bank Holiday [England/Wales/Northern Ireland]'' = [''England'', ''Wales'', ''Northern Ireland'']"
   
  by code_simp+

lemma decorated_bracket:
  "CHR ''['' \<in> set ''New Year Holiday [Scotland]''"
    "CHR ''['' \<in> set ''New Year Holiday [Scotland] (Observed)''"
    "CHR ''['' \<in> set ''St. Patrick's Day [Northern Ireland]''"
    "CHR ''['' \<in> set ''St. Patrick's Day [Northern Ireland] (Observed)''"
    "CHR ''['' \<in> set ''Battle of the Boyne [Northern Ireland]''"
    "CHR ''['' \<in> set ''Summer Bank Holiday [Scotland]''"
    "CHR ''['' \<in> set ''St. Andrew's Day [Scotland]''"
    "CHR ''['' \<in> set ''Easter Monday [England/Wales/Northern Ireland]''"
    "CHR ''['' \<in> set ''Late Summer Bank Holiday [England/Wales/Northern Ireland]''"
   
  by code_simp+

lemma decorated_well_qualified:
  "well_qualified ''New Year Holiday [Scotland]''"
    "well_qualified ''New Year Holiday [Scotland] (Observed)''"
    "well_qualified ''St. Patrick's Day [Northern Ireland]''"
    "well_qualified ''St. Patrick's Day [Northern Ireland] (Observed)''"
    "well_qualified ''Battle of the Boyne [Northern Ireland]''"
    "well_qualified ''Summer Bank Holiday [Scotland]''"
    "well_qualified ''St. Andrew's Day [Scotland]''"
    "well_qualified ''Easter Monday [England/Wales/Northern Ireland]''"
    "well_qualified ''Late Summer Bank Holiday [England/Wales/Northern Ireland]''"
   
  by code_simp+

lemma plain_name:
  assumes "CHR ''['' \<notin> set n"
  shows "undecorate n = n" "applies_to r n" "well_qualified n"
  using assms by (simp_all add: undecorate_def applies_to_def well_qualified_def)

lemma decorated_applies:
  "applies_to r ''New Year Holiday [Scotland]'' = (r = ''Scotland'')"
  "applies_to r ''New Year Holiday [Scotland] (Observed)'' = (r = ''Scotland'')"
  "applies_to r ''St. Patrick's Day [Northern Ireland]'' = (r = ''Northern Ireland'')"
  "applies_to r ''St. Patrick's Day [Northern Ireland] (Observed)'' = (r = ''Northern Ireland'')"
  "applies_to r ''Battle of the Boyne [Northern Ireland]'' = (r = ''Northern Ireland'')"
  "applies_to r ''Summer Bank Holiday [Scotland]'' = (r = ''Scotland'')"
  "applies_to r ''St. Andrew's Day [Scotland]'' = (r = ''Scotland'')"
  "applies_to r ''Easter Monday [England/Wales/Northern Ireland]'' = (r = ''England'' \<or> r = ''Wales'' \<or> r = ''Northern Ireland'')"
  "applies_to r ''Late Summer Bank Holiday [England/Wales/Northern Ireland]'' = (r = ''England'' \<or> r = ''Wales'' \<or> r = ''Northern Ireland'')"
  by (simp_all add: applies_to_def decorated_regions decorated_bracket)

lemma plain_bracket:
  "CHR ''['' \<notin> set ''New Year's Day''"
  "CHR ''['' \<notin> set ''New Year's Day (Observed)''"
  "CHR ''['' \<notin> set ''Christmas Day''"
  "CHR ''['' \<notin> set ''Christmas Day (Observed)''"
  "CHR ''['' \<notin> set ''Good Friday''"
  "CHR ''['' \<notin> set ''May Day''"
  "CHR ''['' \<notin> set ''Spring Bank Holiday''"
  "CHR ''['' \<notin> set ''Boxing Day''"
  "CHR ''['' \<notin> set ''Boxing Day (Observed)''"
  "CHR ''['' \<notin> set ''Silver Jubilee of Elizabeth II''"
  "CHR ''['' \<notin> set ''Wedding of Charles and Diana''"
  "CHR ''['' \<notin> set ''Millennium Celebrations''"
  "CHR ''['' \<notin> set ''Golden Jubilee of Elizabeth II''"
  "CHR ''['' \<notin> set ''Wedding of William and Catherine''"
  "CHR ''['' \<notin> set ''Diamond Jubilee of Elizabeth II''"
  "CHR ''['' \<notin> set ''Platinum Jubilee of Elizabeth II''"
  "CHR ''['' \<notin> set ''State Funeral of Queen Elizabeth II''"
  by code_simp+

lemmas plain_undecorate = plain_bracket[THEN plain_name(1)]
lemmas plain_applies = plain_bracket[THEN plain_name(2)]
lemmas plain_well_qualified = plain_bracket[THEN plain_name(3)]

lemmas name_facts = decorated_undecorate decorated_applies decorated_well_qualified
  plain_undecorate plain_applies plain_well_qualified

lemma new_year_holiday_view:
  assumes "1 \<le> year" "year \<le> 9999"
  shows "\<exists>eu. (\<forall>self. new_year_holiday year ''UK'' observed self = Inr (self @ eu)) \<and>
     (\<forall>r \<in> set regions. \<forall>self. new_year_holiday year r observed self = Inr (self @ region_view r eu)) \<and>
     list_all (\<lambda>e. well_qualified (snd e)) eu"
proof -
  let ?eu = "(ymd2ord year 1 2, ''New Year Holiday [Scotland]'') #
         (if observed \<and> (weekday (ymd2ord year 1 2) = 5 \<or> weekday (ymd2ord year 1 2) = 6)
          then [(ymd2ord year 1 4, ''New Year Holiday [Scotland] (Observed)'')]
          else if observed \<and> weekday (ymd2ord year 1 2) = 0
          then [(ymd2ord year 1 3, ''New Year Holiday [Scotland] (Observed)'')]
          else [])"
  have uk: "new_year_holiday year ''UK'' observed self = Inr (self @ ?eu)" for self
    using assms by (simp add: new_year_holiday_valid)
  have reg: "new_year_holiday year r observed self = Inr (self @ region_view r ?eu)"
    if "r \<in> set regions" for r self
    using regions_cases[OF that] assms
    by (elim disjE; simp add: new_year_holiday_valid name_facts split del: if_split cong: if_cong)
  have wf: "list_all (\<lambda>e. well_qualified (snd e)) ?eu"
    by (simp add: name_facts split del: if_split cong: if_cong)
  from uk reg wf show ?thesis by blast
qed

lemma st_patricks_day_view:
  assumes "1 \<le> year" "year \<le> 9999"
  shows "\<exists>eu. (\<forall>self. st_patricks_day year ''UK'' observed self = Inr (self @ eu)) \<and>
     (\<forall>r \<in> set regions. \<forall>self. st_patricks_day year r observed self = Inr (self @ region_view r eu)) \<and>
     list_all (\<lambda>e. well_qualified (snd e)) eu"
proof -
  let ?eu = "(ymd2ord year 3 17, ''St. Patrick's Day [Northern Ireland]'') #
         (if observed \<and> (weekday (ymd2ord year 3 17) = 5 \<or> weekday (ymd2ord year 3 17) = 6)
          then [(ymd2ord year 3 (17 + (7 - weekday (ymd2ord year 3 17)) mod 7),
                 ''St. Patrick's Day [Northern Ireland] (Observed)'')]
          else [])"
  have uk: "st_patricks_day year ''UK'' observed self = Inr (self @ ?eu)" for self
    using assms by (simp add: st_patricks_day_valid)
  have reg: "st_patricks_day year r observed self = Inr (self @ region_view r ?eu)"
    if "r \<in> set regions" for r self
    using regions_cases[OF that] assms
    by (elim disjE; simp add: st_patricks_day_valid name_facts split del: if_split cong: if_cong)
  have wf: "list_all (\<lambda>e. well_qualified (snd e)) ?eu"
    by (simp add: name_facts split del: if_split cong: if_cong)
  from uk reg wf show ?thesis by blast
qed

lemma battle_of_the_boyne_view:
  assumes "1 \<le> year" "year \<le> 9999"
  shows "\<exists>eu. (\<forall>self. battle_of_the_boyne year ''UK'' self = Inr (self @ eu)) \<and>
     (\<forall>r \<in> set regions. \<forall>self. battle_of_the_boyne year r self = Inr (self @ region_view r eu)) \<and>
     list_all (\<lambda>e. well_qualified (snd e)) eu"
proof -
  let ?eu = "[(ymd2ord year 7 12, ''Battle of the Boyne [Northern Ireland]'')]"
  have uk: "battle_of_the_boyne year ''UK'' self = Inr (self @ ?eu)" for self
    using assms by (simp add: battle_of_the_boyne_valid)
  have reg: "battle_of_the_boyne year r self = Inr (self @ region_view r ?eu)"
    if "r \<in> set regions" for r self
    using regions_cases[OF that] assms
    by (elim disjE; simp add: battle_of_the_boyne_valid name_facts split del: if_split cong: if_cong)
  have wf: "list_all (\<lambda>e. well_qualified (snd e)) ?eu"
    by (simp add: name_facts split del: if_split cong: if_cong)
  from uk reg wf show ?thesis by blast
qed

lemma summer_bank_holiday_view:
  assumes "1 \<le> year" "year \<le> 9999"
  shows "\<exists>eu. (\<forall>self. summer_bank_holiday year ''UK'' self = Inr (self @ eu)) \<and>
     (\<forall>r \<in> set regions. \<forall>self. summer_bank_holiday year r self = Inr (self @ region_view r eu)) \<and>
     list_all (\<lambda>e. well_qualified (snd e)) eu"
proof -
  let ?eu = "[(ymd2ord year 8 (1 + (7 - weekday (ymd2ord year 8 1)) mod 7),
            ''Summer Bank Holiday [Scotland]'')]"
  have uk: "summer_bank_holiday year ''UK'' self = Inr (self @ ?eu)" for self
    using assms by (simp add: summer_bank_holiday_valid)
  have reg: "summer_bank_holiday year r self = Inr (self @ region_view r ?eu)"
    if "r \<in> set regions" for r self
    using regions_cases[OF that] assms
    by (elim disjE; simp add: summer_bank_holiday_valid name_facts split del: if_split cong: if_cong)
  have wf: "list_all (\<lambda>e. well_qualified (snd e)) ?eu"
    by (simp add: name_facts split del: if_split cong: if_cong)
  from uk reg wf show ?thesis by blast
qed

lemma st_andrews_day_view:
  assumes "1 \<le> year" "year \<le> 9999"
  shows "\<exists>eu. (\<forall>self. st_andrews_day year ''UK'' self = Inr (self @ eu)) \<and>
     (\<forall>r \<in> set regions. \<forall>self. st_andrews_day year r self = Inr (self @ region_view r eu)) \<and>
     list_all (\<lambda>e. well_qualified (snd e)) eu"
proof -
  let ?eu = "[(ymd2ord year 11 30, ''St. Andrew's Day [Scotland]'')]"
  have uk: "st_andrews_day year ''UK'' self = Inr (self @ ?eu)" for self
    using assms by (simp add: st_andrews_day_valid)
  have reg: "st_andrews_day year r self = Inr (self @ region_view r ?eu)"
    if "r \<in> set regions" for r self
    using regions_cases[OF that] assms
    by (elim disjE; simp add: st_andrews_day_valid name_facts split del: if_split cong: if_cong)
  have wf: "list_all (\<lambda>e. well_qualified (snd e)) ?eu"
    by (simp add: name_facts split del: if_split cong: if_cong)
  from uk reg wf show ?thesis by blast
qed

lemma late_summer_bank_holiday_view:
  assumes "1 \<le> year" "year \<le> 9999"
  shows "\<exists>eu. (\<forall>self. late_summer_bank_holiday year ''UK'' self = Inr (self @ eu)) \<and>
     (\<forall>r \<in> set regions. \<forall>self. late_summer_bank_holiday year r self = Inr (self @ region_view r eu)) \<and>
     list_all (\<lambda>e. well_qualified (snd e)) eu"
proof -
  let ?eu = "(if 1971 \<le> year then
         [(ymd2ord year 8 (31 - weekday (ymd2ord year 8 31)),
           ''Late Summer Bank Holiday [England/Wales/Northern Ireland]'')]
       else [])"
  have uk: "late_summer_bank_holiday year ''UK'' self = Inr (self @ ?eu)" for self
    using assms by (simp add: late_summer_bank_holiday_valid)
  have reg: "late_summer_bank_holiday year r self = Inr (self @ region_view r ?eu)"
    if "r \<in> set regions" for r self
    using regions_cases[OF that] assms
    by (elim disjE; simp add: late_summer_bank_holiday_valid name_facts split del: if_split cong: if_cong)
  have wf: "list_all (\<lambda>e. well_qualified (snd e)) ?eu"
    by (simp add: name_facts split del: if_split cong: if_cong)
  from uk reg wf show ?thesis by blast
qed

lemma easter_monday_view:
  assumes "easter year = Inr e" "radd e 0 (MO 1) = Inr (e + 1)"
  shows "\<exists>eu. (\<forall>self. easter_monday year ''UK'' self = Inr (self @ eu)) \<and>
     (\<forall>r \<in> set regions. \<forall>self. easter_monday year r self = Inr (self @ region_view r eu)) \<and>
     list_all (\<lambda>e. well_qualified (snd e)) eu"
proof -
  let ?eu = "[(e + 1, ''Easter Monday [England/Wales/Northern Ireland]'')]"
  have uk: "easter_monday year ''UK'' self = Inr (self @ ?eu)" for self
    by (simp add: easter_monday_valid[OF assms])
  have reg: "easter_monday year r self = Inr (self @ region_view r ?eu)"
    if "r \<in> set regions" for r self
    using regions_cases[OF that]
    by (elim disjE; simp add: easter_monday_valid[OF assms] name_facts split del: if_split cong: if_cong)
  have wf: "list_all (\<lambda>e. well_qualified (snd e)) ?eu"
    by (simp add: name_facts split del: if_split cong: if_cong)
  from uk reg wf show ?thesis by blast
qed

lemma HolidayBase_populate_view:
  shows "\<exists>eu. (\<forall>self. HolidayBase_populate year self = Inr (self @ eu)) \<and>
     (\<forall>r. region_view r eu = eu) \<and>
     list_all (\<lambda>e. well_qualified (snd e)) eu"
proof -
  let ?eu = "(if year = 1977 then [(ymd2ord year 6 7, ''Silver Jubilee of Elizabeth II'')]
    else if year = 1981 then [(ymd2ord year 7 29, ''Wedding of Charles and Diana'')]
    else if year = 1999 then [(ymd2ord year 12 31, ''Millennium Celebrations'')]
    else if year = 2002 then [(ymd2ord year 6 3, ''Golden Jubilee of Elizabeth II'')]
    else if year = 2011 then [(ymd2ord year 4 29, ''Wedding of William and Catherine'')]
    else if year = 2012 then [(ymd2ord year 6 5, ''Diamond Jubilee of Elizabeth II'')]
    else if year = 2022 then [(ymd2ord year 6 3, ''Platinum Jubilee of Elizabeth II''),
                              (ymd2ord year 9 19, ''State Funeral of Queen Elizabeth II'')]
    else [])"
  have uk: "HolidayBase_populate year self = Inr (self @ ?eu)" for self
    by (simp add: HolidayBase_populate_valid[unfolded special_entries_unfold])
  have reg: "region_view r ?eu = ?eu" for r
    by (simp add: name_facts split del: if_split cong: if_cong)
  have wf: "list_all (\<lambda>e. well_qualified (snd e)) ?eu"
    by (simp add: name_facts split del: if_split cong: if_cong)
  from uk reg wf show ?thesis by blast
qed

lemma new_years_day_view:
  assumes "1 \<le> year" "year \<le> 9999"
  shows "\<exists>eu. (\<forall>self. new_years_day year observed self = Inr (self @ eu)) \<and>
     (\<forall>r. region_view r eu = eu) \<and>
     list_all (\<lambda>e. well_qualified (snd e)) eu"
proof -
  let ?eu = "(if 1974 \<le> year then
         (ymd2ord year 1 1, ''New Year's Day'') #
         (if observed \<and> weekday (ymd2ord year 1 1) = 6
          then [(ymd2ord year 1 2, ''New Year's Day (Observed)'')]
          else if observed \<and> weekday (ymd2ord year 1 1) = 5
          then [(ymd2ord year 1 3, ''New Year's Day (Observed)'')]
          else [])
       else [])"
  have uk: "new_years_day year observed self = Inr (self @ ?eu)" for self
    using assms by (simp add: new_years_day_valid)
  have reg: "region_view r ?eu = ?eu" for r
    by (simp add: name_facts split del: if_split cong: if_cong)
  have wf: "list_all (\<lambda>e. well_qualified (snd e)) ?eu"
    by (simp add: name_facts split del: if_split cong: if_cong)
  from uk reg wf show ?thesis by blast
qed

lemma christmas_day_view:
  assumes "1 \<le> year" "year \<le> 9999"
  shows "\<exists>eu. (\<forall>self. christmas_day year observed self = Inr (self @ eu)) \<and>
     (\<forall>r. region_view r eu = eu) \<and>
     list_all (\<lambda>e. well_qualified (snd e)) eu"
proof -
  let ?eu = "(ymd2ord year 12 25, ''Christmas Day'') #
         (if observed \<and> (weekday (ymd2ord year 12 25) = 5 \<or> weekday (ymd2ord year 12 25) = 6)
          then [(ymd2ord year 12 27, ''Christmas Day (Observed)'')]
          else [])"
  have uk: "christmas_day year observed self = Inr (self @ ?eu)" for self
    using assms by (simp add: christmas_day_valid)
  have reg: "region_view r ?eu = ?eu" for r
    by (simp add: name_facts split del: if_split cong: if_cong)
  have wf: "list_all (\<lambda>e. well_qualified (snd e)) ?eu"
    by (simp add: name_facts split del: if_split cong: if_cong)
  from uk reg wf show ?thesis by blast
qed

lemma boxing_day_view:
  assumes "1 \<le> year" "year \<le> 9999"
  shows "\<exists>eu. (\<forall>self. boxing_day year observed self = Inr (self @ eu)) \<and>
     (\<forall>r. region_view r eu = eu) \<and>
     list_all (\<lambda>e. well_qualified (snd e)) eu"
proof -
  let ?eu = "(ymd2ord year 12 26, ''Boxing Day'') #
         (if observed \<and> (weekday (ymd2ord year 12 26) = 5 \<or> weekday (ymd2ord year 12 26) = 6)
          then [(ymd2ord year 12 28, ''Boxing Day (Observed)'')]
          else [])"
  have uk: "boxing_day year observed self = Inr (self @ ?eu)" for self
    using assms by (simp add: boxing_day_valid)
  have reg: "region_view r ?eu = ?eu" for r
    by (simp add: name_facts split del: if_split cong: if_cong)
  have wf: "list_all (\<lambda>e. well_qualified (snd e)) ?eu"
    by (simp add: name_facts split del: if_split cong: if_cong)
  from uk reg wf show ?thesis by blast
qed

lemma good_friday_view:
  assumes "easter year = Inr e" "radd e 0 (FR (- 1)) = Inr (e - 2)"
  shows "\<exists>eu. (\<forall>self. good_friday year self = Inr (self @ eu)) \<and>
     (\<forall>r. region_view r eu = eu) \<and>
     list_all (\<lambda>e. well_qualified (snd e)) eu"
proof -
  let ?eu = "[(e - 2, ''Good Friday'')]"
  have uk: "good_friday year self = Inr (self @ ?eu)" for self
    by (simp add: good_friday_valid[OF assms])
  have reg: "region_view r ?eu = ?eu" for r
    by (simp add: name_facts split del: if_split cong: if_cong)
  have wf: "list_all (\<lambda>e. well_qualified (snd e)) ?eu"
    by (simp add: name_facts split del: if_split cong: if_cong)
  from uk reg wf show ?thesis by blast
qed

lemma may_day_view:
  assumes "1 \<le> year" "year \<le> 9999"
  shows "\<exists>eu. (\<forall>self. may_day year self = Inr (self @ eu)) \<and>
     (\<forall>r. region_view r eu = eu) \<and>
     list_all (\<lambda>e. well_qualified (snd e)) eu"
proof -
  let ?eu = "(if 1978 \<le> year then
         (if year = 2020 then [(ymd2ord year 5 8, ''May Day'')]
          else if year = 1995
          then [(ymd2ord year 5 (8 + (7 - weekday (ymd2ord year 5 8)) mod 7), ''May Day'')]
          else [(ymd2ord year 5 (1 + (7 - weekday (ymd2ord year 5 1)) mod 7), ''May Day'')])
       else [])"
  have uk: "may_day year self = Inr (self @ ?eu)" for self
    using assms by (simp add: may_day_valid)
  have reg: "region_view r ?eu = ?eu" for r
    by (simp add: name_facts split del: if_split cong: if_cong)
  have wf: "list_all (\<lambda>e. well_qualified (snd e)) ?eu"
    by (simp add: name_facts split del: if_split cong: if_cong)
  from uk reg wf show ?thesis by blast
qed

lemma spring_bank_holiday_view:
  assumes "1 \<le> year" "year \<le> 9999"
  shows "\<exists>eu. (\<forall>self. spring_bank_holiday year self = Inr (self @ eu)) \<and>
     (\<forall>r. region_view r eu = eu) \<and>
     list_all (\<lambda>e. well_qualified (snd e)) eu"
proof -
  let ?eu = "(if year = 2012 then [(ymd2ord year 6 4, ''Spring Bank Holiday'')]
       else if year = 2022 then [(ymd2ord year 6 2, ''Spring Bank Holiday'')]
       else if 1971 \<le> year then
         [(ymd2ord year 5 (31 - weekday (ymd2ord year 5 31)), ''Spring Bank Holiday'')]
       else [])"
  have uk: "spring_bank_holiday year self = Inr (self @ ?eu)" for self
    using assms by (simp add: spring_bank_holiday_valid)
  have reg: "region_view r ?eu = ?eu" for r
    by (simp add: name_facts split del: if_split cong: if_cong)
  have wf: "list_all (\<lambda>e. well_qualified (snd e)) ?eu"
    by (simp add: name_facts split del: if_split cong: if_cong)
  from uk reg wf show ?thesis by blast
qed

lemma well_qualified_applies:
  assumes "well_qualified n"
  shows "\<exists>r \<in> set regions. applies_to r n"
proof (cases "CHR ''['' \<in> set n")
  case False
  then have "applies_to ''England'' n" by (simp add: applies_to_def)
  then show ?thesis by (auto simp: regions_def)
next
  case True
  with assms have ne: "qualifier_regions n \<noteq> []"
    and sub: "\<forall>q \<in> set (qualifier_regions n). q \<in> set regions"
    by (simp_all add: well_qualified_def)
  from ne obtain q where q: "q \<in> set (qualifier_regions n)" by (cases "qualifier_regions n") auto
  with sub have "q \<in> set regions" by blast
  moreover from q have "applies_to q n" by (simp add: applies_to_def)
  ultimately show ?thesis by blast
qed

lemma well_qualified_strict:
  assumes "well_qualified n" "CHR ''['' \<in> set n"
  shows "qualifier_regions n \<noteq> [] \<and> set (qualifier_regions n) \<subset> set regions"
  using assms by (auto simp: well_qualified_def)

lemma well_qualified_restricted:
  assumes "well_qualified n"
  shows "CHR ''['' \<in> set n \<longleftrightarrow> (\<exists>r \<in> set regions. \<not> applies_to r n)"
  using assms by (auto simp: well_qualified_def applies_to_def)

lemma dates_region_view: "dates (region_view r u) = fst ` {e \<in> set u. applies_to r (snd e)}"
  by (force simp: dates_def region_view_def)

lemma dates_union_of_views:
  assumes "list_all (\<lambda>e. well_qualified (snd e)) u"
  shows "dates u = dates (region_view ''England'' u) \<union> dates (region_view ''Northern Ireland'' u)
           \<union> dates (region_view ''Scotland'' u) \<union> dates (region_view ''Wales'' u)"
proof -
  have "\<exists>r \<in> set regions. applies_to r (snd e)" if "e \<in> set u" for e
    using assms that well_qualified_applies by (auto simp: list_all_iff)
  then have h: "applies_to ''England'' (snd e) \<or>
      applies_to ''Northern Ireland'' (snd e) \<or> applies_to ''Scotland'' (snd e) \<or>
      applies_to ''Wales'' (snd e)" if "e \<in> set u" for e
    using that by (simp add: regions_def)
  show ?thesis
  proof (rule set_eqI, rule iffI)
    fix d
    assume "d \<in> dates u"
    then obtain e where e: "e \<in> set u" "d = fst e" by (auto simp: dates_def)
    with h[of e] show "d \<in> dates (region_view ''England'' u)
           \<union> dates (region_view ''Northern Ireland'' u)
           \<union> dates (region_view ''Scotland'' u) \<union> dates (region_view ''Wales'' u)"
      unfolding dates_region_view by blast
  next
    fix d
    assume "d \<in> dates (region_view ''England'' u)
           \<union> dates (region_view ''Northern Ireland'' u)
           \<union> dates (region_view ''Scotland'' u) \<union> dates (region_view ''Wales'' u)"
    moreover have "dates (region_view r u) \<subseteq> dates u" for r
      unfolding dates_region_view by (force simp: dates_def)
    ultimately show "d \<in> dates u" by blast
  qed
qed

lemma region_view_undecorated:
  assumes "list_all (\<lambda>e. well_qualified (snd e)) u" "(d, name) \<in> set (region_view r u)"
  shows "CHR ''['' \<notin> set name"
  using assms by (auto simp: region_view_def list_all_iff well_qualified_def)

lemma populate_views:
  assumes "1 \<le> year" "year \<le> 9999"
  shows "\<exists>u. populate iom year ''UK'' observed [] = Inr u \<and>
     (\<forall>r \<in> set regions. populate iom year r observed [] = Inr (region_view r u)) \<and>
     list_all (\<lambda>e. well_qualified (snd e)) u"
proof -
  from easter_valid[OF assms] obtain e where e: "easter year = Inr e"
    "radd e 0 (FR (- 1)) = Inr (e - 2)" "radd e 0 (MO 1) = Inr (e + 1)" by blast
  from HolidayBase_populate_view[of year] obtain sp where
    sp: "\<And>self. HolidayBase_populate year self = Inr (self @ sp)"
      "\<And>r. region_view r sp = sp" "list_all (\<lambda>e. well_qualified (snd e)) sp" by blast
  from new_years_day_view[OF assms, of observed] obtain nyd where
    nyd: "\<And>self. new_years_day year observed self = Inr (self @ nyd)"
      "\<And>r. region_view r nyd = nyd" "list_all (\<lambda>e. well_qualified (snd e)) nyd" by blast
  from new_year_holiday_view[OF assms, of observed] obtain nyh where
    nyh: "\<And>self. new_year_holiday year ''UK'' observed self = Inr (self @ nyh)"
      "\<And>r self. r \<in> set regions \<Longrightarrow>
         new_year_holiday year r observed self = Inr (self @ region_view r nyh)"
      "list_all (\<lambda>e. well_qualified (snd e)) nyh" by blast
  from st_patricks_day_view[OF assms, of observed] obtain stp where
    stp: "\<And>self. st_patricks_day year ''UK'' observed self = Inr (self @ stp)"
      "\<And>r self. r \<in> set regions \<Longrightarrow>
         st_patricks_day year r observed self = Inr (self @ region_view r stp)"
      "list_all (\<lambda>e. well_qualified (snd e)) stp" by blast
  from battle_of_the_boyne_view[OF assms] obtain bob where
    bob: "\<And>self. battle_of_the_boyne year ''UK'' self = Inr (self @ bob)"
      "\<And>r self. r \<in> set regions \<Longrightarrow>
         battle_of_the_boyne year r self = Inr (self @ region_view r bob)"
      "list_all (\<lambda>e. well_qualified (snd e)) bob" by blast
  from summer_bank_holiday_view[OF assms] obtain sbh where
    sbh: "\<And>self. summer_bank_holiday year ''UK'' self = Inr (self @ sbh)"
      "\<And>r self. r \<in> set regions \<Longrightarrow>
         summer_bank_holiday year r self = Inr (self @ region_view r sbh)"
      "list_all (\<lambda>e. well_qualified (snd e)) sbh" by blast
  from st_andrews_day_view[OF assms] obtain sta where
    sta: "\<And>self. st_andrews_day year ''UK'' self = Inr (self @ sta)"
      "\<And>r self. r \<in> set regions \<Longrightarrow>
         st_andrews_day year r self = Inr (self @ region_view r sta)"
      "list_all (\<lambda>e. well_qualified (snd e)) sta" by blast
  from christmas_day_view[OF assms, of observed] obtain chr where
    chr: "\<And>self. christmas_day year observed self = Inr (self @ chr)"
      "\<And>r. region_view r chr = chr" "list_all (\<lambda>e. well_qualified (snd e)) chr" by blast
  from good_friday_view[OF e(1,2)] obtain gf where
    gf: "\<And>self. good_friday year self = Inr (self @ gf)"
      "\<And>r. region_view r gf = gf" "list_all (\<lambda>e. well_qualified (snd e)) gf" by blast
  from easter_monday_view[OF e(1,3)] obtain em where
    em: "\<And>self. easter_monday year ''UK'' self = Inr (self @ em)"
      "\<And>r self. r \<in> set regions \<Longrightarrow>
         easter_monday year r self = Inr (self @ region_view r em)"
      "list_all (\<lambda>e. well_qualified (snd e)) em" by blast
  from may_day_view[OF assms] obtain md where
    md: "\<And>self. may_day year self = Inr (self @ md)"
      "\<And>r. region_view r md = md" "list_all (\<lambda>e. well_qualified (snd e)) md" by blast
  from spring_bank_holiday_view[OF assms] obtain spr where
    spr: "\<And>self. spring_bank_holiday year self = Inr (self @ spr)"
      "\<And>r. region_view r spr = spr" "list_all (\<lambda>e. well_qualified (snd e)) spr" by blast
  from late_summer_bank_holiday_view[OF assms] obtain ls where
    ls: "\<And>self. late_summer_bank_holiday year ''UK'' self = Inr (self @ ls)"
      "\<And>r self. r \<in> set regions \<Longrightarrow>
         late_summer_bank_holiday year r self = Inr (self @ region_view r ls)"
      "list_all (\<lambda>e. well_qualified (snd e)) ls" by blast
  from boxing_day_view[OF assms, of observed] obtain bx where
    bx: "\<And>self. boxing_day year observed self = Inr (self @ bx)"
      "\<And>r. region_view r bx = bx" "list_all (\<lambda>e. well_qualified (snd e)) bx" by blast
  define u where "u = sp @ nyd @ nyh @ stp @ bob @ sbh @ sta @ chr @ gf @ em @ md @ spr @ ls @ bx"
  have uk: "populate iom year ''UK'' observed [] = Inr u"
    by (simp add: populate_def country_specific_def additional_holidays_def u_def
        sp(1) nyd(1) nyh(1) stp(1) bob(1) sbh(1) sta(1) chr(1) gf(1) em(1) md(1) spr(1) ls(1) bx(1))
  have reg: "populate iom year r observed [] = Inr (region_view r u)" if "r \<in> set regions" for r
  proof -
    have "r \<noteq> ''Isle of Man''" using regions_cases[OF that] by auto
    then show ?thesis using that
      by (simp add: populate_def country_specific_def additional_holidays_def u_def
        sp(1,2) nyd(1,2) nyh(2) stp(2) bob(2) sbh(2) sta(2) chr(1,2) gf(1,2) em(2) md(1,2)
        spr(1,2) ls(2) bx(1,2))
  qed
  have wf: "list_all (\<lambda>e. well_qualified (snd e)) u"
    by (simp add: u_def sp(3) nyd(3) nyh(3) stp(3) bob(3) sbh(3) sta(3) chr(3) gf(3) em(3) md(3)
        spr(3) ls(3) bx(3))
  from uk reg wf show ?thesis by blast
qed

text \<open>
  C4: for every year that \<^verbatim>\<open>date\<close> accepts, with the observed setting fixed, the
  dates of the "UK" result are the union of the dates of the results for "England",
  "Northern Ireland", "Scotland" and "Wales". Each regional result is the "UK" result
  restricted to the entries that apply to the region, with the bracketed qualifier
  removed: no regional name carries a qualifier, and a "UK" name carries one if and only
  if its entry is missing from some region, in which case the qualifier lists a
  non-empty strict subset of the four regions.
\<close>

theorem uk_is_union_of_regions:
  assumes "1 \<le> year" "year \<le> 9999"
  shows "\<exists>u e n c w.
     populate iom year ''UK'' observed [] = Inr u \<and>
     populate iom year ''England'' observed [] = Inr e \<and>
     populate iom year ''Northern Ireland'' observed [] = Inr n \<and>
     populate iom year ''Scotland'' observed [] = Inr c \<and>
     populate iom year ''Wales'' observed [] = Inr w \<and>
     dates u = dates e \<union> dates n \<union> dates c \<union> dates w \<and>
     e = region_view ''England'' u \<and> n = region_view ''Northern Ireland'' u \<and>
     c = region_view ''Scotland'' u \<and> w = region_view ''Wales'' u \<and>
     (\<forall>(d, name) \<in> set e \<union> set n \<union> set c \<union> set w. CHR ''['' \<notin> set name) \<and>
     (\<forall>(d, name) \<in> set u.
        (CHR ''['' \<in> set name \<longleftrightarrow> (\<exists>r \<in> set regions. \<not> applies_to r name)) \<and>
        (CHR ''['' \<in> set name \<longrightarrow>
           qualifier_regions name \<noteq> [] \<and> set (qualifier_regions name) \<subset> set regions))"
proof -
  from populate_views[OF assms, of iom observed] obtain u where
    u: "populate iom year ''UK'' observed [] = Inr u"
    and r: "\<And>r. r \<in> set regions \<Longrightarrow> populate iom year r observed [] = Inr (region_view r u)"
    and wf: "list_all (\<lambda>e. well_qualified (snd e)) u" by blast
  have regs: "populate iom year ''England'' observed [] = Inr (region_view ''England'' u)"
    "populate iom year ''Northern Ireland'' observed [] = Inr (region_view ''Northern Ireland'' u)"
    "populate iom year ''Scotland'' observed [] = Inr (region_view ''Scotland'' u)"
    "populate iom year ''Wales'' observed [] = Inr (region_view ''Wales'' u)"
    by (simp_all add: r regions_def)
  have und: "\<forall>(d, name) \<in> set (region_view ''England'' u) \<union>
      set (region_view ''Northern Ireland'' u) \<union> set (region_view ''Scotland'' u) \<union>
      set (region_view ''Wales'' u). CHR ''['' \<notin> set name"
    using region_view_undecorated[OF wf] by blast
  have q: "\<forall>(d, name) \<in> set u.
        (CHR ''['' \<in> set name \<longleftrightarrow> (\<exists>r \<in> set regions. \<not> applies_to r name)) \<and>
        (CHR ''['' \<in> set name \<longrightarrow>
           qualifier_regions name \<noteq> [] \<and> set (qualifier_regions name) \<subset> set regions)"
  proof (clarify, intro conjI impI)
    fix d name
    assume "(d, name) \<in> set u"
    with wf have w: "well_qualified name" by (auto simp: list_all_iff)
    from well_qualified_restricted[OF w]
    show "CHR ''['' \<in> set name \<longleftrightarrow> (\<exists>r \<in> set regions. \<not> applies_to r name)" .
    assume "CHR ''['' \<in> set name"
    from well_qualified_strict[OF w this]
    show "qualifier_regions name \<noteq> []" "set (qualifier_regions name) \<subset> set regions"
      by simp_all
  qed
  from u regs dates_union_of_views[OF wf] und q show ?thesis by blast
qed

theorem uk_is_union_of_regions_witness:
  "\<exists>u c. populate (\<lambda>y s. Inr s) 2022 ''UK'' True [] = Inr u \<and>
     populate (\<lambda>y s. Inr s) 2022 ''Scotland'' True [] = Inr c \<and>
     dates c \<subseteq> dates u \<and>
     (738157, ''New Year Holiday [Scotland]'') \<in> set u \<and>
     (738157, ''New Year Holiday'') \<in> set c \<and>
     (738263, ''Easter Monday [England/Wales/Northern Ireland]'') \<in> set u \<and>
     738263 \<notin> dates c"
proof -
  from uk_is_union_of_regions[of 2022 "\<lambda>y s. Inr s" True]
  obtain u e n c w where
    u: "populate (\<lambda>y s. Inr s) 2022 ''UK'' True [] = Inr u"
    and c: "populate (\<lambda>y s. Inr s) 2022 ''Scotland'' True [] = Inr c"
    and d: "dates u = dates e \<union> dates n \<union> dates c \<union> dates w"
    and v: "c = region_view ''Scotland'' u"
    by auto
  from u have u': "u = [(738309, ''Platinum Jubilee of Elizabeth II''),
         (738417, ''State Funeral of Queen Elizabeth II''),
         (738156, ''New Year's Day''), (738158, ''New Year's Day (Observed)''),
         (738157, ''New Year Holiday [Scotland]''),
         (738159, ''New Year Holiday [Scotland] (Observed)''),
         (738231, ''St. Patrick's Day [Northern Ireland]''),
         (738348, ''Battle of the Boyne [Northern Ireland]''),
         (738368, ''Summer Bank Holiday [Scotland]''),
         (738489, ''St. Andrew's Day [Scotland]''),
         (738514, ''Christmas Day''), (738516, ''Christmas Day (Observed)''),
         (738260, ''Good Friday''),
         (738263, ''Easter Monday [England/Wales/Northern Ireland]''),
         (738277, ''May Day''), (738308, ''Spring Bank Holiday''),
         (738396, ''Late Summer Bank Holiday [England/Wales/Northern Ireland]''),
         (738515, ''Boxing Day'')]"
    by (simp add: uk_2022_populate)
  have c': "c = [(738309, ''Platinum Jubilee of Elizabeth II''),
         (738417, ''State Funeral of Queen Elizabeth II''),
         (738156, ''New Year's Day''), (738158, ''New Year's Day (Observed)''),
         (738157, ''New Year Holiday''),
         (738159, ''New Year Holiday (Observed)''),
         (738368, ''Summer Bank Holiday''),
         (738489, ''St. Andrew's Day''),
         (738514, ''Christmas Day''), (738516, ''Christmas Day (Observed)''),
         (738260, ''Good Friday''),
         (738277, ''May Day''), (738308, ''Spring Bank Holiday''),
         (738515, ''Boxing Day'')]"
    unfolding v u' by (simp add: name_facts)
  have "dates c \<subseteq> dates u" using d by blast
  moreover have "(738157, ''New Year Holiday [Scotland]'') \<in> set u"
    "(738263, ''Easter Monday [England/Wales/Northern Ireland]'') \<in> set u"
    by (simp_all add: u')
  moreover have "(738157, ''New Year Holiday'') \<in> set c" "738263 \<notin> dates c"
    by (simp_all add: c' dates_def)
  ultimately show ?thesis using u c by blast
qed

end
